theory Spec2Isabelle
  imports Complex_Main "HOL-Library.Sublist"
begin

section \<open>JavaScript strings and values used by the modules\<close>

text \<open>
  A JavaScript string is modelled as a \<^typ>\<open>string\<close>: a list of code units below 256
  (the Latin-1 range, which holds the Spanish texts of the user interface). The string
  methods the modules call are written out on that range.
\<close>

definition isWhiteSpace :: "char \<Rightarrow> bool" where
  \<comment> \<open>white space and line terminators of ECMAScript below 256:
      TAB, LF, VT, FF, CR, SP, NBSP\<close>
  "isWhiteSpace c =
     (c \<in> set [CHR 0x09, CHR 0x0A, CHR 0x0B, CHR 0x0C, CHR 0x0D, CHR 0x20, CHR 0xA0])"

definition trimStart :: "string \<Rightarrow> string" where
  "trimStart s = dropWhile isWhiteSpace s"

definition trim :: "string \<Rightarrow> string" where
  \<comment> \<open>\<^verbatim>\<open>String.prototype.trim\<close>\<close>
  "trim s = rev (dropWhile isWhiteSpace (rev (dropWhile isWhiteSpace s)))"

definition upperCaseLetters :: "char list" where
  "upperCaseLetters =
     ''ABCDEFGHIJKLMNOPQRSTUVWXYZ'' @
     [CHR 0xC0, CHR 0xC1, CHR 0xC2, CHR 0xC3, CHR 0xC4, CHR 0xC5, CHR 0xC6, CHR 0xC7,
      CHR 0xC8, CHR 0xC9, CHR 0xCA, CHR 0xCB, CHR 0xCC, CHR 0xCD, CHR 0xCE, CHR 0xCF,
      CHR 0xD0, CHR 0xD1, CHR 0xD2, CHR 0xD3, CHR 0xD4, CHR 0xD5, CHR 0xD6,
      CHR 0xD8, CHR 0xD9, CHR 0xDA, CHR 0xDB, CHR 0xDC, CHR 0xDD, CHR 0xDE]"

definition lowerCaseLetters :: "char list" where
  "lowerCaseLetters =
     ''abcdefghijklmnopqrstuvwxyz'' @
     [CHR 0xE0, CHR 0xE1, CHR 0xE2, CHR 0xE3, CHR 0xE4, CHR 0xE5, CHR 0xE6, CHR 0xE7,
      CHR 0xE8, CHR 0xE9, CHR 0xEA, CHR 0xEB, CHR 0xEC, CHR 0xED, CHR 0xEE, CHR 0xEF,
      CHR 0xF0, CHR 0xF1, CHR 0xF2, CHR 0xF3, CHR 0xF4, CHR 0xF5, CHR 0xF6,
      CHR 0xF8, CHR 0xF9, CHR 0xFA, CHR 0xFB, CHR 0xFC, CHR 0xFD, CHR 0xFE]"

definition lowerChar :: "char \<Rightarrow> char" where
  \<comment> \<open>the lower-case mapping of one code unit: A-Z and the Latin-1 capitals
      (0xC0-0xDE without the multiplication sign 0xD7) move up by 0x20\<close>
  "lowerChar c =
     (case map_of (zip upperCaseLetters lowerCaseLetters) c of
        Some d \<Rightarrow> d
      | None \<Rightarrow> c)"

definition toLowerCase :: "string \<Rightarrow> string" where
  \<comment> \<open>\<^verbatim>\<open>String.prototype.toLowerCase\<close>\<close>
  "toLowerCase s = map lowerChar s"

fun includes_js :: "string \<Rightarrow> string \<Rightarrow> bool" where
  \<comment> \<open>\<^verbatim>\<open>s.includes(q)\<close>: \<open>q\<close> occurs in \<open>s\<close> as a contiguous run\<close>
  "includes_js [] q = (q = [])"
| "includes_js (c # s) q = (prefix q (c # s) \<or> includes_js s q)"

definition digit_char :: "nat \<Rightarrow> char" where
  "digit_char d = ''0123456789'' ! d"

fun show_nat :: "nat \<Rightarrow> string" where
  \<comment> \<open>the decimal digits of a natural number, as a template literal prints it\<close>
  "show_nat n = (if n < 10 then [digit_char n] else show_nat (n div 10) @ [digit_char (n mod 10)])"

declare show_nat.simps [simp del]

definition show_int :: "int \<Rightarrow> string" where
  "show_int i = (if i < 0 then ''-'' @ show_nat (nat (- i)) else show_nat (nat i))"

definition dquote :: char where
  \<comment> \<open>the double quote (U+0022)\<close>
  "dquote = CHR 0x22"

definition a_acute :: char where
  \<comment> \<open>the letter a with acute accent (U+00E1)\<close>
  "a_acute = CHR 0xE1"

text \<open>
  An entity id is assigned by the backend and may arrive as a number or as a string;
  the modules compare ids only after \<^verbatim>\<open>String(id)\<close>. Numeric ids are integers
  (printed in decimal, as JavaScript does below \<open>10^21\<close>).
\<close>

datatype ident = IdNum int | IdStr string

fun String_js :: "ident \<Rightarrow> string" where
  "String_js (IdNum i) = show_int i"
| "String_js (IdStr s) = s"

section \<open>The Machines module\<close>

text \<open>
  A machine as the cache holds it. \<open>machine_isActive\<close> is \<open>None\<close> when the flag is
  absent from the object. \<open>machine_name\<close> and \<open>machine_code\<close> are strings, as the
  form's validation requires of everything the module submits.
\<close>

record machine =
  machine_id :: ident
  machine_name :: string
  machine_code :: string
  machine_notes :: string
  machine_isActive :: "bool option"

text \<open>The payload built by \<^verbatim>\<open>collectFormData\<close>; \<open>mp_isActive\<close> is \<open>None\<close>
  when the key is not included.\<close>

record machine_payload =
  mp_name :: string
  mp_code :: string
  mp_notes :: string
  mp_isActive :: "bool option"

text \<open>
  \<^verbatim>\<open>MachinesAPI\<close> is imported from \<^verbatim>\<open>api.js\<close>. Each call is recorded in the state, and
  its outcome is an argument of the handler that awaits it: \<open>Inl msg\<close> when the call
  throws an error with message \<open>msg\<close>, \<open>Inr v\<close> when it resolves.
\<close>

datatype machines_api_call =
    MachinesAPI_getAll
  | MachinesAPI_create machine_payload
  | MachinesAPI_update ident machine_payload
  | MachinesAPI_activate string
  | MachinesAPI_deactivate string

text \<open>
  The state of the module: its three variables, the elements of the page it reads and
  writes (named by their ids), the toasts of the global container (\<open>None\<close> when the
  page has no \<^verbatim>\<open>#toast-container\<close>) and the calls made to the API. \<open>machines_tbody\<close>
  holds the machines whose rows are in the table body. Titles and button markup are
  presentation only and left out.
\<close>

record machines_state =
  allMachines :: "machine list"
  editingMachine :: "machine option"
  activeFilter :: string
  machine_field_id :: string
  machine_field_name :: string
  machine_field_code :: string
  machine_field_notes :: string
  machine_field_active :: string
  machine_status_group_display :: string
  machine_error_name :: string
  machine_error_code :: string
  machine_submit_btn_disabled :: bool
  machine_cancel_btn_display :: string
  machines_search :: string
  machines_filter_status :: string
  machines_count_badge :: string
  machines_table_loading_display :: string
  machines_table_empty_display :: string
  machines_table_wrapper_display :: string
  machines_tbody :: "machine list"
  toast_container :: "(string \<times> string) list option"
  machines_api_calls :: "machines_api_call list"

definition machines_showTableLoading :: "bool \<Rightarrow> machines_state \<Rightarrow> machines_state" where
  "machines_showTableLoading loading s =
     s\<lparr>machines_table_loading_display := (if loading then ''flex'' else ''none''),
       machines_table_wrapper_display := (if loading then ''none'' else ''''),
       machines_table_empty_display := ''none''\<rparr>"

definition machines_showFeedback :: "string \<Rightarrow> string \<Rightarrow> machines_state \<Rightarrow> machines_state" where
  \<comment> \<open>a toast \<open>(type, message)\<close> is appended to the container when the page has one\<close>
  "machines_showFeedback message type s =
     (case toast_container s of
        None \<Rightarrow> s
      | Some toasts \<Rightarrow> s\<lparr>toast_container := Some (toasts @ [(type, message)])\<rparr>)"

definition machines_renderTable :: "machine list \<Rightarrow> machines_state \<Rightarrow> machines_state" where
  "machines_renderTable machines s =
     (let s1 = machines_showTableLoading False s in
      if machines = [] then
        s1\<lparr>machines_table_empty_display := ''flex'',
           machines_table_wrapper_display := ''none''\<rparr>
      else
        s1\<lparr>machines_table_empty_display := ''none'',
           machines_table_wrapper_display := ''block'',
           machines_tbody := machines\<rparr>)"

definition machines_updateCountBadge :: "nat \<Rightarrow> nat option \<Rightarrow> machines_state \<Rightarrow> machines_state" where
  "machines_updateCountBadge total_n filtered s =
     (let noun = ''m'' @ [a_acute] @ ''quina'' @ (if total_n \<noteq> 1 then ''s'' else '''') in
      if filtered \<noteq> None \<and> filtered \<noteq> Some total_n then
        s\<lparr>machines_count_badge := show_nat (the filtered) @ '' de '' @ show_nat total_n @ '' '' @ noun\<rparr>
      else
        s\<lparr>machines_count_badge := show_nat total_n @ '' '' @ noun\<rparr>)"

definition applyFilters_query :: "machines_state \<Rightarrow> string" where
  "applyFilters_query s = toLowerCase (trim (machines_search s))"

definition applyFilters_status :: "machines_state \<Rightarrow> string" where
  "applyFilters_status s =
     (if machines_filter_status s = '''' then ''all'' else machines_filter_status s)"

definition applyFilters_results :: "machines_state \<Rightarrow> machine list" where
  \<comment> \<open>the value of the local \<^verbatim>\<open>results\<close> when \<^verbatim>\<open>applyFilters\<close> renders it\<close>
  "applyFilters_results s =
     (let query = applyFilters_query s;
          status = applyFilters_status s;
          results = allMachines s;
          results = (if query \<noteq> '''' then
                       filter (\<lambda>m. includes_js (toLowerCase (machine_name m)) query \<or>
                                   includes_js (toLowerCase (machine_code m)) query) results
                     else results);
          results = (if status = ''active'' then
                       filter (\<lambda>m. machine_isActive m \<noteq> Some False) results
                     else if status = ''inactive'' then
                       filter (\<lambda>m. machine_isActive m = Some False) results
                     else results)
      in results)"

definition applyFilters :: "machines_state \<Rightarrow> machines_state" where
  "applyFilters s =
     (let query = applyFilters_query s;
          status = applyFilters_status s;
          s1 = s\<lparr>activeFilter := status\<rparr>;
          results = applyFilters_results s;
          isFiltered = (query \<noteq> '''' \<or> status \<noteq> ''all'');
          s2 = machines_updateCountBadge (length (allMachines s))
                 (if isFiltered then Some (length results) else None) s1
      in machines_renderTable results s2)"

definition loadMachines :: "string + machine list \<Rightarrow> machines_state \<Rightarrow> machines_state" where
  "loadMachines getAll_result s =
     (let s1 = machines_showTableLoading True s;
          s2 = s1\<lparr>machines_api_calls := machines_api_calls s1 @ [MachinesAPI_getAll]\<rparr>
      in case getAll_result of
           Inr machines \<Rightarrow> applyFilters (s2\<lparr>allMachines := machines\<rparr>)
         | Inl message \<Rightarrow>
             machines_showTableLoading False
               (machines_showFeedback (''Error al cargar m'' @ [a_acute] @ ''quinas: '' @ message)
                  ''error'' s2))"

definition isNameDuplicate :: "machines_state \<Rightarrow> string \<Rightarrow> bool" where
  "isNameDuplicate s name =
     (let normalized = toLowerCase (trim name) in
      list_ex (\<lambda>m.
        if editingMachine s \<noteq> None \<and>
           String_js (machine_id m) = String_js (machine_id (the (editingMachine s)))
        then False
        else toLowerCase (trim (machine_name m)) = normalized) (allMachines s))"

definition isCodeDuplicate :: "machines_state \<Rightarrow> string \<Rightarrow> bool" where
  "isCodeDuplicate s code =
     (let normalized = toLowerCase (trim code) in
      list_ex (\<lambda>m.
        if editingMachine s \<noteq> None \<and>
           String_js (machine_id m) = String_js (machine_id (the (editingMachine s)))
        then False
        else toLowerCase (trim (machine_code m)) = normalized) (allMachines s))"

definition machines_clearFormErrors :: "machines_state \<Rightarrow> machines_state" where
  "machines_clearFormErrors s = s\<lparr>machine_error_name := '''', machine_error_code := ''''\<rparr>"

definition machines_validateForm :: "machines_state \<Rightarrow> bool \<times> machines_state" where
  \<comment> \<open>the returned flag and the page with the inline errors written\<close>
  "machines_validateForm s =
     (let s0 = machines_clearFormErrors s;
          name = trim (machine_field_name s0);
          code = trim (machine_field_code s0);
          (valid1, s1) =
            (if name = '''' then
               (False, s0\<lparr>machine_error_name := ''El nombre de la m'' @ [a_acute] @ ''quina es obligatorio.''\<rparr>)
             else if isNameDuplicate s0 name then
               (False, s0\<lparr>machine_error_name :=
                  ''Ya existe una m'' @ [a_acute] @ ''quina llamada '' @ [dquote] @ name @ [dquote] @ ''. Usa un nombre diferente.''\<rparr>)
             else (True, s0));
          (valid2, s2) =
            (if code = '''' then
               (False, s1\<lparr>machine_error_code := ''El c'' @ [CHR 0xF3] @ ''digo de la m'' @ [a_acute] @ ''quina es obligatorio.''\<rparr>)
             else if isCodeDuplicate s1 code then
               (False, s1\<lparr>machine_error_code :=
                  ''El c'' @ [CHR 0xF3] @ ''digo '' @ [dquote] @ code @ [dquote] @ '' ya est'' @ [a_acute] @ '' en uso. Ingresa un c'' @ [CHR 0xF3] @ ''digo '' @ [CHR 0xFA] @ ''nico.''\<rparr>)
             else (valid1, s1))
      in (valid2, s2))"

definition machines_collectFormData :: "machines_state \<Rightarrow> machine_payload" where
  "machines_collectFormData s =
     \<lparr>mp_name = trim (machine_field_name s),
      mp_code = trim (machine_field_code s),
      mp_notes = trim (machine_field_notes s),
      mp_isActive =
        (if machine_status_group_display s \<noteq> ''none''
         then Some (machine_field_active s = ''true'') else None)\<rparr>"

definition machines_resetFormToCreateMode :: "machines_state \<Rightarrow> machines_state" where
  \<comment> \<open>\<^verbatim>\<open>form.reset()\<close> gives every control its default: empty text, first option \<open>true\<close>\<close>
  "machines_resetFormToCreateMode s =
     machines_clearFormErrors
       (s\<lparr>editingMachine := None,
          machine_field_name := '''',
          machine_field_code := '''',
          machine_field_notes := '''',
          machine_field_active := ''true'',
          machine_field_id := '''',
          machine_status_group_display := ''none'',
          machine_cancel_btn_display := ''none''\<rparr>)"

definition machines_handleFormSubmit ::
  "string + unit \<Rightarrow> string + machine list \<Rightarrow> machines_state \<Rightarrow> machines_state" where
  "machines_handleFormSubmit save_result getAll_result s =
     (let (valid, s1) = machines_validateForm s in
      if \<not> valid then s1
      else
        let s2 = s1\<lparr>machine_submit_btn_disabled := True\<rparr>;
            payload = machines_collectFormData s2;
            call = (case editingMachine s2 of
                      Some m \<Rightarrow> MachinesAPI_update (machine_id m) payload
                    | None \<Rightarrow> MachinesAPI_create payload);
            s3 = s2\<lparr>machines_api_calls := machines_api_calls s2 @ [call]\<rparr>;
            s4 = (case save_result of
                    Inr _ \<Rightarrow>
                      loadMachines getAll_result
                        (machines_resetFormToCreateMode
                           (machines_showFeedback
                              (if editingMachine s3 \<noteq> None
                               then ''M'' @ [a_acute] @ ''quina actualizada correctamente.''
                               else ''M'' @ [a_acute] @ ''quina creada correctamente.'')
                              ''success'' s3))
                  | Inl message \<Rightarrow>
                      machines_showFeedback (''Error al guardar: '' @ message) ''error'' s3)
        in s4\<lparr>machine_submit_btn_disabled := False\<rparr>)"

definition machines_handleEdit :: "string \<Rightarrow> machines_state \<Rightarrow> machines_state" where
  "machines_handleEdit machineId s =
     (case find (\<lambda>m. String_js (machine_id m) = machineId) (allMachines s) of
        None \<Rightarrow> s
      | Some m \<Rightarrow>
          s\<lparr>editingMachine := Some m,
            machine_field_id := String_js (machine_id m),
            machine_field_name := machine_name m,
            machine_field_code := machine_code m,
            machine_field_notes := machine_notes m,
            machine_field_active :=
              (if machine_isActive m \<noteq> Some False then ''true'' else ''false''),
            machine_status_group_display := '''',
            machine_cancel_btn_display := ''inline-flex''\<rparr>)"

definition machines_handleToggleStatus ::
  "bool \<Rightarrow> string + unit \<Rightarrow> string + machine list \<Rightarrow> string \<Rightarrow> bool \<Rightarrow>
   machines_state \<Rightarrow> machines_state" where
  \<comment> \<open>\<open>confirmed\<close> is the answer of the \<^verbatim>\<open>confirm\<close> dialog\<close>
  "machines_handleToggleStatus confirmed toggle_result getAll_result machineId currentlyActive s =
     (if \<not> confirmed then s
      else
        let call = (if currentlyActive then MachinesAPI_deactivate machineId
                    else MachinesAPI_activate machineId);
            s1 = s\<lparr>machines_api_calls := machines_api_calls s @ [call]\<rparr>
        in case toggle_result of
             Inl message \<Rightarrow>
               machines_showFeedback (''Error al cambiar estado: '' @ message) ''error'' s1
           | Inr _ \<Rightarrow>
               let s2 = (if currentlyActive
                         then machines_showFeedback (''M'' @ [a_acute] @ ''quina desactivada.'') ''warning'' s1
                         else machines_showFeedback (''M'' @ [a_acute] @ ''quina activada.'') ''success'' s1);
                   s3 = (case editingMachine s2 of
                           None \<Rightarrow> s2
                         | Some e \<Rightarrow>
                             if String_js (machine_id e) = machineId then
                               s2\<lparr>editingMachine := Some (e\<lparr>machine_isActive := Some (\<not> currentlyActive)\<rparr>),
                                  machine_field_active := (if \<not> currentlyActive then ''true'' else ''false'')\<rparr>
                             else s2)
               in loadMachines getAll_result s3)"

section \<open>Numbers read from strings\<close>

text \<open>
  A JavaScript number is \<open>NaN\<close>, an infinity or a finite value. Finite values are kept
  as exact rationals: rounding to the nearest double is not modelled, and the two zeros
  are one value (both are falsy and neither is below zero).
\<close>

datatype jsnum = NaN | PosInf | NegInf | Fin rat

definition truthy_num :: "jsnum \<Rightarrow> bool" where
  \<comment> \<open>\<^verbatim>\<open>ToBoolean\<close> of a number: false for \<open>NaN\<close> and zero\<close>
  "truthy_num v = (case v of NaN \<Rightarrow> False | Fin r \<Rightarrow> r \<noteq> 0 | _ \<Rightarrow> True)"

definition less_zero :: "jsnum \<Rightarrow> bool" where
  \<comment> \<open>\<^verbatim>\<open>v < 0\<close>\<close>
  "less_zero v = (case v of NegInf \<Rightarrow> True | Fin r \<Rightarrow> r < 0 | _ \<Rightarrow> False)"

definition negate :: "jsnum \<Rightarrow> jsnum" where
  "negate v = (case v of NaN \<Rightarrow> NaN | PosInf \<Rightarrow> NegInf | NegInf \<Rightarrow> PosInf | Fin r \<Rightarrow> Fin (- r))"

definition isDigit :: "char \<Rightarrow> bool" where
  "isDigit c = (c \<in> set ''0123456789'')"

definition digits_val :: "nat \<Rightarrow> string \<Rightarrow> nat" where
  \<comment> \<open>the value of a run of digits in the given base\<close>
  "digits_val base ds =
     foldl (\<lambda>a c. base * a +
              (case map_of (zip ''0123456789abcdef'' [0, 1, 2, 3, 4, 5, 6, 7, 8, 9, 10, 11, 12, 13, 14, 15])
                      (lowerChar c) of
                 Some d \<Rightarrow> d
               | None \<Rightarrow> 0)) 0 ds"

definition scale10 :: "nat \<Rightarrow> int \<Rightarrow> rat" where
  \<comment> \<open>\<open>n\<close> times ten to the power \<open>k\<close>\<close>
  "scale10 n k = (if 0 \<le> k then of_nat n * 10 ^ nat k else of_nat n / 10 ^ nat (- k))"

definition scan_exponent :: "string \<Rightarrow> int \<times> string" where
  \<comment> \<open>an optional \<^verbatim>\<open>ExponentPart\<close>: its value and the rest of the string\<close>
  "scan_exponent s =
     (case s of
        [] \<Rightarrow> (0, s)
      | c # t \<Rightarrow>
          if c = CHR ''e'' \<or> c = CHR ''E'' then
            (let (neg, t1) =
                   (case t of
                      [] \<Rightarrow> (False, t)
                    | d # u \<Rightarrow>
                        if d = CHR ''-'' then (True, u)
                        else if d = CHR ''+'' then (False, u)
                        else (False, t));
                 ds = takeWhile isDigit t1
             in if ds = [] then (0, s)
                else (if neg then - int (digits_val 10 ds) else int (digits_val 10 ds),
                      dropWhile isDigit t1))
          else (0, s))"

definition scan_unsigned :: "string \<Rightarrow> (jsnum \<times> string) option" where
  \<comment> \<open>the longest prefix that is a \<^verbatim>\<open>StrUnsignedDecimalLiteral\<close>, with its value\<close>
  "scan_unsigned s =
     (if prefix ''Infinity'' s then Some (PosInf, drop 8 s)
      else
        let ip = takeWhile isDigit s;
            r1 = dropWhile isDigit s;
            (fp, r2) =
              (case r1 of
                 [] \<Rightarrow> ([], r1)
               | c # t \<Rightarrow>
                   if c = CHR ''.'' \<and> (ip \<noteq> [] \<or> takeWhile isDigit t \<noteq> [])
                   then (takeWhile isDigit t, dropWhile isDigit t)
                   else ([], r1))
        in if ip = [] \<and> fp = [] then None
           else
             let (e, r3) = scan_exponent r2
             in Some (Fin (scale10 (digits_val 10 (ip @ fp)) (e - int (length fp))), r3))"

definition scan_decimal :: "string \<Rightarrow> (jsnum \<times> string) option" where
  \<comment> \<open>\<^verbatim>\<open>StrDecimalLiteral\<close>: an optional sign before the unsigned literal\<close>
  "scan_decimal s =
     (case s of
        [] \<Rightarrow> None
      | c # t \<Rightarrow>
          if c = CHR ''+'' then scan_unsigned t
          else if c = CHR ''-'' then map_option (\<lambda>(v, r). (negate v, r)) (scan_unsigned t)
          else scan_unsigned s)"

definition parseFloat :: "string \<Rightarrow> jsnum" where
  "parseFloat s = (case scan_decimal (trimStart s) of None \<Rightarrow> NaN | Some (v, r) \<Rightarrow> v)"

definition nonDecimalLiteral :: "string \<Rightarrow> nat option" where
  \<comment> \<open>\<^verbatim>\<open>0x\<close>, \<^verbatim>\<open>0o\<close> and \<^verbatim>\<open>0b\<close> integer literals\<close>
  "nonDecimalLiteral t =
     (case t of
        z # x # ds \<Rightarrow>
          if z = CHR ''0'' \<and> ds \<noteq> [] then
            (if lowerChar x = CHR ''x'' \<and> list_all (\<lambda>c. lowerChar c \<in> set ''0123456789abcdef'') ds
               then Some (digits_val 16 ds)
             else if lowerChar x = CHR ''o'' \<and> list_all (\<lambda>c. c \<in> set ''01234567'') ds
               then Some (digits_val 8 ds)
             else if lowerChar x = CHR ''b'' \<and> list_all (\<lambda>c. c \<in> set ''01'') ds
               then Some (digits_val 2 ds)
             else None)
          else None
      | _ \<Rightarrow> None)"

definition Number_js :: "string \<Rightarrow> jsnum" where
  \<comment> \<open>\<^verbatim>\<open>Number(s)\<close> on a string: the whole trimmed string must be a numeric literal\<close>
  "Number_js s =
     (let t = trim s in
      if t = [] then Fin 0
      else case scan_decimal t of
             Some (v, []) \<Rightarrow> v
           | _ \<Rightarrow> (case nonDecimalLiteral t of Some n \<Rightarrow> Fin (of_nat n) | None \<Rightarrow> NaN))"

section \<open>The Products module\<close>

text \<open>A product as the cache holds it; \<open>product_active\<close> is \<open>None\<close> when the flag is
  absent, \<open>product_priceInvestor\<close> is \<open>None\<close> when the price is \<^verbatim>\<open>null\<close>.\<close>

record product =
  product_id :: ident
  product_name :: string
  product_type :: string
  product_priceStandard :: jsnum
  product_priceInvestor :: "jsnum option"
  product_active :: "bool option"

record product_payload =
  pp_name :: string
  pp_type :: string
  pp_priceStandard :: jsnum
  pp_priceInvestor :: "jsnum option"
  pp_active :: bool

datatype products_api_call =
    ProductsAPI_getAll
  | ProductsAPI_create product_payload
  | ProductsAPI_update ident product_payload
  | ProductsAPI_setStatus string bool

text \<open>
  The state of the module: its two variables, the elements of the page (named by their
  ids) and the calls made to \<^verbatim>\<open>ProductsAPI\<close>, whose outcomes are arguments of the
  handlers as in the Machines module.
\<close>

record products_state =
  allProducts :: "product list"
  editingProduct :: "product option"
  field_id :: string
  field_name :: string
  field_type :: string
  field_price_standard :: string
  field_price_investor :: string
  field_active :: string
  error_name :: string
  error_type :: string
  error_price_standard :: string
  form_submit_btn_disabled :: bool
  form_cancel_btn_display :: string
  table_search :: string
  products_count_badge :: string
  table_loading_display :: string
  table_empty_display :: string
  table_wrapper_display :: string
  products_tbody :: "product list"
  feedback_banner_textContent :: string
  feedback_banner_className :: string
  products_api_calls :: "products_api_call list"

definition products_showTableLoading :: "bool \<Rightarrow> products_state \<Rightarrow> products_state" where
  "products_showTableLoading loading s =
     s\<lparr>table_loading_display := (if loading then ''flex'' else ''none''),
       table_wrapper_display := (if loading then ''none'' else ''''),
       table_empty_display := ''none''\<rparr>"

definition products_showFeedback :: "string \<Rightarrow> string \<Rightarrow> products_state \<Rightarrow> products_state" where
  "products_showFeedback message type s =
     s\<lparr>feedback_banner_textContent := message,
       feedback_banner_className :=
         ''feedback-banner feedback-banner--'' @ type @ '' feedback-banner--visible''\<rparr>"

definition products_renderTable :: "product list \<Rightarrow> products_state \<Rightarrow> products_state" where
  "products_renderTable products s =
     (let s1 = products_showTableLoading False s in
      if products = [] then
        s1\<lparr>table_empty_display := ''flex'', table_wrapper_display := ''none''\<rparr>
      else
        s1\<lparr>table_empty_display := ''none'',
           table_wrapper_display := ''block'',
           products_tbody := products\<rparr>)"

definition products_updateCountBadge :: "nat \<Rightarrow> products_state \<Rightarrow> products_state" where
  "products_updateCountBadge count s =
     s\<lparr>products_count_badge := show_nat count @ '' producto'' @ (if count \<noteq> 1 then ''s'' else '''')\<rparr>"

definition loadProducts :: "string + product list \<Rightarrow> products_state \<Rightarrow> products_state" where
  "loadProducts getAll_result s =
     (let s1 = products_showTableLoading True s;
          s2 = s1\<lparr>products_api_calls := products_api_calls s1 @ [ProductsAPI_getAll]\<rparr>
      in case getAll_result of
           Inr products \<Rightarrow>
             (let s3 = s2\<lparr>allProducts := products\<rparr>;
                  s4 = products_renderTable (allProducts s3) s3
              in products_updateCountBadge (length (allProducts s4)) s4)
         | Inl message \<Rightarrow>
             products_showTableLoading False
               (products_showFeedback (''Error al cargar productos: '' @ message) ''error'' s2))"

definition handleSearch_filtered :: "products_state \<Rightarrow> product list" where
  \<comment> \<open>the value of the local \<^verbatim>\<open>filtered\<close> in \<^verbatim>\<open>handleSearch\<close>; the event's target is the
      search input\<close>
  "handleSearch_filtered s =
     (let query = toLowerCase (trim (table_search s)) in
      if query \<noteq> '''' then
        filter (\<lambda>p. includes_js (toLowerCase (product_name p)) query) (allProducts s)
      else allProducts s)"

definition handleSearch :: "products_state \<Rightarrow> products_state" where
  "handleSearch s = products_renderTable (handleSearch_filtered s) s"

definition products_clearFormErrors :: "products_state \<Rightarrow> products_state" where
  "products_clearFormErrors s =
     s\<lparr>error_name := '''', error_type := '''', error_price_standard := ''''\<rparr>"

definition products_validateForm :: "products_state \<Rightarrow> bool \<times> products_state" where
  "products_validateForm s =
     (let s0 = products_clearFormErrors s;
          name = trim (field_name s0);
          type = field_type s0;
          price = field_price_standard s0;
          (valid1, s1) =
            (if name = '''' then
               (False, s0\<lparr>error_name := ''El nombre del producto es obligatorio.''\<rparr>)
             else (True, s0));
          (valid2, s2) =
            (if type = '''' then
               (False, s1\<lparr>error_type := ''Selecciona el tipo de producto.''\<rparr>)
             else (valid1, s1));
          (valid3, s3) =
            (if price = '''' \<or> less_zero (Number_js price) then
               (False, s2\<lparr>error_price_standard :=
                  ''Ingresa un precio est'' @ [a_acute] @ ''ndar v'' @ [a_acute] @ ''lido.''\<rparr>)
             else (valid2, s2))
      in (valid3, s3))"

definition products_collectFormData :: "products_state \<Rightarrow> product_payload" where
  "products_collectFormData s =
     \<lparr>pp_name = trim (field_name s),
      pp_type = field_type s,
      pp_priceStandard =
        (let v = parseFloat (field_price_standard s) in if truthy_num v then v else Fin 0),
      pp_priceInvestor =
        (let v = parseFloat (field_price_investor s) in if truthy_num v then Some v else None),
      pp_active = (field_active s = ''true'')\<rparr>"

definition products_resetFormToCreateMode :: "products_state \<Rightarrow> products_state" where
  \<comment> \<open>\<^verbatim>\<open>form.reset()\<close> gives every control its default: empty text, the placeholder
      option of the type, first option \<open>true\<close> of the status\<close>
  "products_resetFormToCreateMode s =
     products_clearFormErrors
       (s\<lparr>editingProduct := None,
          field_name := '''',
          field_type := '''',
          field_price_standard := '''',
          field_price_investor := '''',
          field_active := ''true'',
          field_id := '''',
          form_cancel_btn_display := ''none''\<rparr>)"

definition products_handleFormSubmit ::
  "string + unit \<Rightarrow> string + product list \<Rightarrow> products_state \<Rightarrow> products_state" where
  "products_handleFormSubmit save_result getAll_result s =
     (let (valid, s1) = products_validateForm s in
      if \<not> valid then s1
      else
        let s2 = s1\<lparr>form_submit_btn_disabled := True\<rparr>;
            payload = products_collectFormData s2;
            call = (case editingProduct s2 of
                      Some p \<Rightarrow> ProductsAPI_update (product_id p) payload
                    | None \<Rightarrow> ProductsAPI_create payload);
            s3 = s2\<lparr>products_api_calls := products_api_calls s2 @ [call]\<rparr>;
            s4 = (case save_result of
                    Inr _ \<Rightarrow>
                      loadProducts getAll_result
                        (products_resetFormToCreateMode
                           (products_showFeedback
                              (if editingProduct s3 \<noteq> None
                               then ''Producto actualizado correctamente.''
                               else ''Producto creado correctamente.'')
                              ''success'' s3))
                  | Inl message \<Rightarrow>
                      products_showFeedback (''Error al guardar: '' @ message) ''error'' s3)
        in s4\<lparr>form_submit_btn_disabled := False\<rparr>)"

definition products_handleToggleStatus ::
  "bool \<Rightarrow> string + unit \<Rightarrow> string + product list \<Rightarrow> string \<Rightarrow> bool \<Rightarrow>
   products_state \<Rightarrow> products_state" where
  "products_handleToggleStatus confirmed setStatus_result getAll_result productId currentlyActive s =
     (if \<not> confirmed then s
      else
        let s1 = s\<lparr>products_api_calls :=
                     products_api_calls s @ [ProductsAPI_setStatus productId (\<not> currentlyActive)]\<rparr>
        in case setStatus_result of
             Inl message \<Rightarrow>
               products_showFeedback (''Error al cambiar estado: '' @ message) ''error'' s1
           | Inr _ \<Rightarrow>
               loadProducts getAll_result
                 (products_showFeedback
                    (if currentlyActive then ''Producto desactivado.'' else ''Producto activado.'')
                    ''success'' s1))"

section \<open>The request wrapper of api.js\<close>

text \<open>
  A parsed JSON value. An object keeps its members in the order of the text; reading a
  key gives the last member of that name, as \<^verbatim>\<open>JSON.parse\<close> does.
\<close>

datatype json =
    JNull
  | JBool bool
  | JNum rat
  | JStr string
  | JArr "json list"
  | JObj "(string \<times> json) list"

definition truthy :: "json \<Rightarrow> bool" where
  \<comment> \<open>\<^verbatim>\<open>ToBoolean\<close>\<close>
  "truthy v =
     (case v of
        JNull \<Rightarrow> False
      | JBool b \<Rightarrow> b
      | JNum r \<Rightarrow> r \<noteq> 0
      | JStr s \<Rightarrow> s \<noteq> ''''
      | JArr _ \<Rightarrow> True
      | JObj _ \<Rightarrow> True)"

definition get_message :: "json \<Rightarrow> unit + json option" where
  \<comment> \<open>\<^verbatim>\<open>errorData.message\<close>: a \<^verbatim>\<open>TypeError\<close> (\<open>Inl\<close>) on \<^verbatim>\<open>null\<close>, \<^verbatim>\<open>undefined\<close>
      (\<open>Inr None\<close>) when the value is no object or has no such member\<close>
  "get_message errorData =
     (case errorData of
        JNull \<Rightarrow> Inl ()
      | JObj members \<Rightarrow> Inr (map_of (rev members) ''message'')
      | _ \<Rightarrow> Inr None)"

text \<open>
  The response as \<^verbatim>\<open>fetch\<close> resolves it: \<open>response_body\<close> is what \<^verbatim>\<open>response.json()\<close>
  gives, \<open>None\<close> when the body is not JSON and the call rejects.
\<close>

record response =
  response_status :: nat
  response_statusText :: string
  response_body :: "json option"

definition response_ok :: "response \<Rightarrow> bool" where
  "response_ok r = (200 \<le> response_status r \<and> response_status r \<le> 299)"

text \<open>
  The ways \<^verbatim>\<open>request\<close> throws: \<^verbatim>\<open>fetch\<close> itself rejected with a message; the
  \<^verbatim>\<open>new Error(errorMessage)\<close> of a non-2xx response, kept with the value handed to
  the constructor (which makes its message with \<^verbatim>\<open>String\<close>); the final
  \<^verbatim>\<open>response.json()\<close> rejected.
\<close>

datatype request_error = FetchRejected string | HttpError json | BodyNotJson

definition request :: "string + response \<Rightarrow> request_error + json" where
  \<comment> \<open>the outcome of \<^verbatim>\<open>request(endpoint, options)\<close> from the outcome of its \<^verbatim>\<open>fetch\<close>;
      \<^verbatim>\<open>null\<close> is \<open>JNull\<close>\<close>
  "request fetch_result =
     (case fetch_result of
        Inl message \<Rightarrow> Inl (FetchRejected message)
      | Inr response \<Rightarrow>
          if \<not> response_ok response then
            (let errorMessage =
                   JStr (''Error '' @ show_nat (response_status response) @ '': '' @
                         response_statusText response);
                 errorMessage =
                   (case response_body response of
                      None \<Rightarrow> errorMessage
                    | Some errorData \<Rightarrow>
                        (case get_message errorData of
                           Inl _ \<Rightarrow> errorMessage
                         | Inr None \<Rightarrow> errorMessage
                         | Inr (Some v) \<Rightarrow> if truthy v then v else errorMessage))
             in Inl (HttpError errorMessage))
          else if response_status response = 204 then Inr JNull
          else (case response_body response of
                  None \<Rightarrow> Inl BodyNotJson
                | Some v \<Rightarrow> Inr v))"

section \<open>What the page shows, and the properties in the specification's words\<close>

text \<open>
  The rows a user sees: none while the table wrapper is hidden (\<^verbatim>\<open>renderTable\<close> hides
  it for an empty list and leaves the old rows in the body), the rows of the body
  otherwise.
\<close>

definition machines_displayed :: "machines_state \<Rightarrow> machine list" where
  "machines_displayed s =
     (if machines_table_wrapper_display s = ''none'' then [] else machines_tbody s)"

definition products_displayed :: "products_state \<Rightarrow> product list" where
  "products_displayed s =
     (if table_wrapper_display s = ''none'' then [] else products_tbody s)"

text \<open>
  The filter contract as the specification words it: the trimmed query occurs in the
  field when case is ignored; \<open>inactive\<close> selects the entries whose flag is exactly
  false, \<open>active\<close> every entry whose flag is not exactly false (an absent flag
  included), any other value of the selector everything.
\<close>

definition spec_text_match :: "string \<Rightarrow> string \<Rightarrow> bool" where
  "spec_text_match query field = sublist (toLowerCase (trim query)) (toLowerCase field)"

definition spec_status_match :: "string \<Rightarrow> bool option \<Rightarrow> bool" where
  "spec_status_match status flag =
     (if status = ''inactive'' then flag = Some False
      else if status = ''active'' then flag \<noteq> Some False
      else True)"

text \<open>
  Uniqueness as the specification words it: some cached machine other than the one
  being edited (ids compared as strings) carries the same value in the given field,
  trimmed and lower-cased.
\<close>

definition spec_duplicate :: "(machine \<Rightarrow> string) \<Rightarrow> machines_state \<Rightarrow> string \<Rightarrow> bool" where
  "spec_duplicate field s v =
     (\<exists>m\<in>set (allMachines s).
        (case editingMachine s of
           None \<Rightarrow> True
         | Some e \<Rightarrow> String_js (machine_id m) \<noteq> String_js (machine_id e)) \<and>
        toLowerCase (trim (field m)) = toLowerCase (trim v))"

text \<open>The count badge as the specification words it, for a noun in the singular.\<close>

definition spec_badge :: "nat \<Rightarrow> nat \<Rightarrow> string \<Rightarrow> string" where
  "spec_badge filtered total_n noun =
     (if filtered < total_n then show_nat filtered @ '' de '' @ show_nat total_n
      else show_nat total_n) @
     '' '' @ noun @ (if total_n \<noteq> 1 then ''s'' else '''')"

text \<open>
  The \<^verbatim>\<open>message\<close> member of an error response, when the body is a JSON object that
  has one, and the generic text of the wrapper.
\<close>

definition server_message :: "response \<Rightarrow> json option" where
  "server_message r =
     (case response_body r of
        Some (JObj members) \<Rightarrow> map_of (rev members) ''message''
      | _ \<Rightarrow> None)"

definition generic_error :: "response \<Rightarrow> string" where
  "generic_error r =
     ''Error '' @ show_nat (response_status r) @ '': '' @ response_statusText r"

text \<open>
  The texts \<^verbatim>\<open>validateForm\<close> leaves under each field (empty when the field passes),
  read off its branches.
\<close>

definition machines_name_error :: "machines_state \<Rightarrow> string" where
  "machines_name_error s =
     (let name = trim (machine_field_name s) in
      if name = '''' then ''El nombre de la m'' @ [a_acute] @ ''quina es obligatorio.''
      else if isNameDuplicate s name then
        ''Ya existe una m'' @ [a_acute] @ ''quina llamada '' @ [dquote] @ name @ [dquote] @ ''. Usa un nombre diferente.''
      else '''')"

definition machines_code_error :: "machines_state \<Rightarrow> string" where
  "machines_code_error s =
     (let code = trim (machine_field_code s) in
      if code = '''' then ''El c'' @ [CHR 0xF3] @ ''digo de la m'' @ [a_acute] @ ''quina es obligatorio.''
      else if isCodeDuplicate s code then
        ''El c'' @ [CHR 0xF3] @ ''digo '' @ [dquote] @ code @ [dquote] @ '' ya est'' @ [a_acute] @ '' en uso. Ingresa un c'' @ [CHR 0xF3] @ ''digo '' @ [CHR 0xFA] @ ''nico.''
      else '''')"

definition products_name_error :: "products_state \<Rightarrow> string" where
  "products_name_error s =
     (if trim (field_name s) = '''' then ''El nombre del producto es obligatorio.'' else '''')"

definition products_type_error :: "products_state \<Rightarrow> string" where
  "products_type_error s =
     (if field_type s = '''' then ''Selecciona el tipo de producto.'' else '''')"

definition products_price_error :: "products_state \<Rightarrow> string" where
  "products_price_error s =
     (if field_price_standard s = '''' \<or> less_zero (Number_js (field_price_standard s))
      then ''Ingresa un precio est'' @ [a_acute] @ ''ndar v'' @ [a_acute] @ ''lido.'' else '''')"

section \<open>Example pages\<close>

text \<open>
  The Machines page as \<^verbatim>\<open>buildModuleHTML\<close> leaves it at the first mount, on a page
  with an empty toast container, and the cache of the specification's scenario. The
  dash of the placeholder badge lies outside Latin-1 and is written as a hyphen; the
  first load overwrites it.
\<close>

definition mounted_machines :: machines_state where
  "mounted_machines =
     \<lparr>allMachines = [], editingMachine = None, activeFilter = ''all'',
      machine_field_id = '''', machine_field_name = '''', machine_field_code = '''',
      machine_field_notes = '''', machine_field_active = ''true'',
      machine_status_group_display = ''none'',
      machine_error_name = '''', machine_error_code = '''',
      machine_submit_btn_disabled = False, machine_cancel_btn_display = ''none'',
      machines_search = '''', machines_filter_status = ''all'',
      machines_count_badge = ''- m'' @ [a_acute] @ ''quinas'',
      machines_table_loading_display = '''', machines_table_empty_display = ''none'',
      machines_table_wrapper_display = ''none'', machines_tbody = [],
      toast_container = Some [], machines_api_calls = []\<rparr>"

definition machine_A :: machine where
  "machine_A = \<lparr>machine_id = IdNum 1, machine_name = ''A'', machine_code = ''C1'',
                 machine_notes = '''', machine_isActive = Some True\<rparr>"

definition machine_B :: machine where
  "machine_B = \<lparr>machine_id = IdNum 2, machine_name = ''B'', machine_code = ''C2'',
                 machine_notes = '''', machine_isActive = Some False\<rparr>"

definition loaded_machines :: machines_state where
  "loaded_machines = loadMachines (Inr [machine_A, machine_B]) mounted_machines"

definition editing_machine_A :: machines_state where
  "editing_machine_A = machines_handleEdit ''1'' loaded_machines"

definition editing_machine_B :: machines_state where
  "editing_machine_B = machines_handleEdit ''2'' loaded_machines"

definition duplicate_name_form :: machines_state where
  \<comment> \<open>the create form filled with the name of machine A in another spelling\<close>
  "duplicate_name_form =
     loaded_machines\<lparr>machine_field_name := '' a '', machine_field_code := ''C9''\<rparr>"

definition filtering_inactive :: machines_state where
  \<comment> \<open>the status selector set to \<open>inactive\<close>\<close>
  "filtering_inactive = loaded_machines\<lparr>machines_filter_status := ''inactive''\<rparr>"

definition loaded_machines_no_toasts :: machines_state where
  \<comment> \<open>the loaded page in a document that has no \<^verbatim>\<open>#toast-container\<close>\<close>
  "loaded_machines_no_toasts = loaded_machines\<lparr>toast_container := None\<rparr>"

text \<open>The Products page at the first mount, and a cache of two products.\<close>

definition mounted_products :: products_state where
  "mounted_products =
     \<lparr>allProducts = [], editingProduct = None,
      field_id = '''', field_name = '''', field_type = '''',
      field_price_standard = '''', field_price_investor = '''', field_active = ''true'',
      error_name = '''', error_type = '''', error_price_standard = '''',
      form_submit_btn_disabled = False, form_cancel_btn_display = ''none'',
      table_search = '''', products_count_badge = ''- productos'',
      table_loading_display = '''', table_empty_display = ''none'',
      table_wrapper_display = ''none'', products_tbody = [],
      feedback_banner_textContent = '''', feedback_banner_className = ''feedback-banner'',
      products_api_calls = []\<rparr>"

definition product_tapa :: product where
  "product_tapa = \<lparr>product_id = IdNum 1, product_name = ''Tapa'', product_type = ''produced'',
                    product_priceStandard = Fin 10, product_priceInvestor = None,
                    product_active = Some True\<rparr>"

definition product_botella :: product where
  "product_botella = \<lparr>product_id = IdNum 2, product_name = ''Botella'', product_type = ''resale'',
                       product_priceStandard = Fin 25, product_priceInvestor = Some (Fin 20),
                       product_active = Some True\<rparr>"

definition loaded_products :: products_state where
  "loaded_products = loadProducts (Inr [product_tapa, product_botella]) mounted_products"

definition duplicate_product_form :: products_state where
  \<comment> \<open>the create form filled with the name of an existing product in another spelling\<close>
  "duplicate_product_form =
     loaded_products\<lparr>field_name := '' tapa '', field_type := ''produced'',
                     field_price_standard := ''10''\<rparr>"

definition editing_product_tapa :: products_state where
  \<comment> \<open>the page as \<^verbatim>\<open>handleEdit('1')\<close> leaves it: the product held in
      \<^verbatim>\<open>editingProduct\<close>, its values in the fields, the cancel button shown\<close>
  "editing_product_tapa =
     loaded_products\<lparr>editingProduct := Some product_tapa, field_id := ''1'',
                     field_name := ''Tapa'', field_type := ''produced'',
                     field_price_standard := ''10'', field_price_investor := '''',
                     field_active := ''true'', form_cancel_btn_display := ''inline-flex''\<rparr>"

definition searching_tapa :: products_state where
  \<comment> \<open>the search input holding a query that one of the two products matches\<close>
  "searching_tapa = loaded_products\<lparr>table_search := ''TAPA ''\<rparr>"

text \<open>Three responses: an error with an empty message, one with a message, and a 204.\<close>

definition response_empty_message :: response where
  "response_empty_message =
     \<lparr>response_status = 500, response_statusText = ''Internal Server Error'',
      response_body = Some (JObj [(''message'', JStr '''')])\<rparr>"

definition response_db_down :: response where
  "response_db_down =
     \<lparr>response_status = 500, response_statusText = ''Internal Server Error'',
      response_body = Some (JObj [(''message'', JStr ''db down'')])\<rparr>"

definition response_no_content :: response where
  "response_no_content =
     \<lparr>response_status = 204, response_statusText = ''No Content'', response_body = None\<rparr>"

section \<open>Strings\<close>

lemma show_nat_small:
  "show_nat 0 = [CHR 0x30]"
  "show_nat 1 = [CHR 0x31]"
  "show_nat (Suc 0) = [CHR 0x31]"
  "show_nat 2 = [CHR 0x32]"
  "show_nat (Suc (Suc 0)) = [CHR 0x32]"
  "show_nat 204 = [CHR 0x32, CHR 0x30, CHR 0x34]"
  "show_nat 500 = [CHR 0x35, CHR 0x30, CHR 0x30]"
  by (simp_all add: show_nat.simps digit_char_def)

lemmas string_defs =
  trim_def trimStart_def isWhiteSpace_def toLowerCase_def lowerChar_def upperCaseLetters_def
  lowerCaseLetters_def show_nat_small show_int_def

lemmas number_defs =
  parseFloat_def Number_js_def scan_decimal_def scan_unsigned_def scan_exponent_def
  nonDecimalLiteral_def isDigit_def digits_val_def scale10_def truthy_num_def less_zero_def
  negate_def

lemmas machines_defs =
  mounted_machines_def machine_A_def machine_B_def loaded_machines_def loadMachines_def
  applyFilters_def applyFilters_results_def applyFilters_query_def applyFilters_status_def
  machines_updateCountBadge_def machines_renderTable_def machines_showTableLoading_def
  machines_showFeedback_def machines_handleEdit_def machines_displayed_def

lemmas products_defs =
  mounted_products_def product_tapa_def product_botella_def loaded_products_def
  loadProducts_def products_renderTable_def products_showTableLoading_def
  products_updateCountBadge_def products_showFeedback_def handleSearch_def
  handleSearch_filtered_def products_displayed_def

lemma includes_js_sublist: "includes_js s q = sublist q s"
  by (induction s) (auto simp: sublist_Cons_right)

lemma dropWhile_trim_aux:
  "dropWhile P (rev (dropWhile P (rev (dropWhile P s)))) = rev (dropWhile P (rev (dropWhile P s)))"
proof (cases "dropWhile P s")
  case Nil
  show ?thesis unfolding Nil by simp
next
  case (Cons a t)
  then have na: "\<not> P a" by (metis hd_dropWhile list.sel(1) list.distinct(1))
  have "rev (dropWhile P (rev (a # t))) = a # rev (dropWhile P (rev t))"
    using na by (simp add: dropWhile_append)
  then show ?thesis unfolding Cons using na by simp
qed

lemma trim_trim: "trim (trim s) = trim s"
  by (simp add: trim_def dropWhile_trim_aux)

text \<open>
  \<open>spec_text_match\<close> is a substring match that ignores case: some contiguous part of
  the field equals the trimmed query once both are lower-cased.
\<close>

lemma spec_text_match_iff:
  "spec_text_match query field \<longleftrightarrow>
     (\<exists>part. sublist part field \<and> toLowerCase part = toLowerCase (trim query))"
proof
  assume "spec_text_match query field"
  then have "sublist (toLowerCase (trim query)) (map lowerChar field)"
    by (simp add: spec_text_match_def toLowerCase_def)
  then obtain part where "sublist part field" "toLowerCase (trim query) = map lowerChar part"
    by (blast dest: sublist_map_rightE)
  then show "\<exists>part. sublist part field \<and> toLowerCase part = toLowerCase (trim query)"
    by (auto simp: toLowerCase_def)
next
  assume "\<exists>part. sublist part field \<and> toLowerCase part = toLowerCase (trim query)"
  then obtain part where p: "sublist part field" "toLowerCase part = toLowerCase (trim query)"
    by blast
  from p(1) have "sublist (map lowerChar part) (map lowerChar field)"
    by (rule map_mono_sublist)
  with p(2) show "spec_text_match query field"
    by (simp add: spec_text_match_def toLowerCase_def)
qed

section \<open>The filter coordinator\<close>

lemma displayed_renderTable_m: "machines_displayed (machines_renderTable ms s) = ms"
  by (simp add: machines_displayed_def machines_renderTable_def machines_showTableLoading_def Let_def)

lemma displayed_renderTable_p: "products_displayed (products_renderTable ps s) = ps"
  by (simp add: products_displayed_def products_renderTable_def products_showTableLoading_def Let_def)

lemma displayed_applyFilters: "machines_displayed (applyFilters s) = applyFilters_results s"
  by (simp add: applyFilters_def Let_def displayed_renderTable_m)

lemma displayed_handleSearch: "products_displayed (handleSearch s) = handleSearch_filtered s"
  by (simp add: handleSearch_def displayed_renderTable_p)

lemma applyFilters_results_filter:
  "applyFilters_results s =
     filter (\<lambda>m. (spec_text_match (machines_search s) (machine_name m) \<or>
                  spec_text_match (machines_search s) (machine_code m)) \<and>
                 spec_status_match (machines_filter_status s) (machine_isActive m))
       (allMachines s)"
  by (simp add: applyFilters_results_def applyFilters_query_def applyFilters_status_def
        spec_text_match_def spec_status_match_def includes_js_sublist Let_def)

lemma handleSearch_filtered_filter:
  "handleSearch_filtered s =
     filter (\<lambda>p. spec_text_match (table_search s) (product_name p)) (allProducts s)"
  by (simp add: handleSearch_filtered_def spec_text_match_def includes_js_sublist Let_def)

lemma renderTable_m_alt:
  "machines_renderTable ms s =
     s\<lparr>machines_table_loading_display := ''none'',
       machines_table_wrapper_display := (if ms = [] then ''none'' else ''block''),
       machines_table_empty_display := (if ms = [] then ''flex'' else ''none''),
       machines_tbody := (if ms = [] then machines_tbody s else ms)\<rparr>"
  by (cases "ms = []") (simp_all add: machines_renderTable_def machines_showTableLoading_def)

lemma updateCountBadge_m_alt:
  "machines_updateCountBadge t f s =
     s\<lparr>machines_count_badge :=
         (if f \<noteq> None \<and> f \<noteq> Some t then show_nat (the f) @ '' de '' else '''') @
         show_nat t @ '' m'' @ [a_acute] @ ''quina'' @ (if t \<noteq> 1 then ''s'' else '''')\<rparr>"
  by (simp add: machines_updateCountBadge_def Let_def)

lemma length_results_le: "length (applyFilters_results s) \<le> length (allMachines s)"
  by (simp add: applyFilters_results_filter)

lemma results_all_unfiltered:
  "applyFilters_query s = '''' \<Longrightarrow> applyFilters_status s = ''all'' \<Longrightarrow>
   applyFilters_results s = allMachines s"
  by (simp add: applyFilters_results_def)

text \<open>\<^verbatim>\<open>applyFilters\<close> as one update of the page.\<close>

lemma applyFilters_alt:
  "applyFilters s =
     s\<lparr>activeFilter := applyFilters_status s,
       machines_count_badge :=
         spec_badge (length (applyFilters_results s)) (length (allMachines s))
           (''m'' @ [a_acute] @ ''quina''),
       machines_table_loading_display := ''none'',
       machines_table_wrapper_display := (if applyFilters_results s = [] then ''none'' else ''block''),
       machines_table_empty_display := (if applyFilters_results s = [] then ''flex'' else ''none''),
       machines_tbody := (if applyFilters_results s = [] then machines_tbody s else applyFilters_results s)\<rparr>"
proof -
  let ?n = "length (applyFilters_results s)" and ?t = "length (allMachines s)"
  let ?f = "if applyFilters_query s \<noteq> '''' \<or> applyFilters_status s \<noteq> ''all'' then Some ?n else None"
  have le: "?n \<le> ?t" by (rule length_results_le)
  have badge: "(if ?f \<noteq> None \<and> ?f \<noteq> Some ?t then show_nat (the ?f) @ '' de '' else '''') @
         show_nat ?t @ '' m'' @ [a_acute] @ ''quina'' @ (if ?t \<noteq> 1 then ''s'' else '''')
        = spec_badge ?n ?t (''m'' @ [a_acute] @ ''quina'')"
  proof (cases "applyFilters_query s \<noteq> '''' \<or> applyFilters_status s \<noteq> ''all''")
    case True
    then have "?f = Some ?n" by simp
    then show ?thesis using le unfolding spec_badge_def by (cases "?n = ?t") simp_all
  next
    case False
    then have f: "?f = None" by simp
    from False have "?n = ?t" by (simp add: results_all_unfiltered)
    then show ?thesis unfolding spec_badge_def f by simp
  qed
  show ?thesis
    unfolding applyFilters_def Let_def renderTable_m_alt updateCountBadge_m_alt badge
    by simp
qed

lemma applyFilters_fields:
  "allMachines (applyFilters s) = allMachines s"
  "machines_search (applyFilters s) = machines_search s"
  "machines_filter_status (applyFilters s) = machines_filter_status s"
  "editingMachine (applyFilters s) = editingMachine s"
  "machine_field_active (applyFilters s) = machine_field_active s"
  "machines_api_calls (applyFilters s) = machines_api_calls s"
  "toast_container (applyFilters s) = toast_container s"
  by (simp_all add: applyFilters_alt)

lemma applyFilters_results_cong:
  "allMachines t = allMachines s \<Longrightarrow> machines_search t = machines_search s \<Longrightarrow>
   machines_filter_status t = machines_filter_status s \<Longrightarrow>
   applyFilters_results t = applyFilters_results s"
  by (simp add: applyFilters_results_def applyFilters_query_def applyFilters_status_def)

lemma applyFilters_idem: "applyFilters (applyFilters s) = applyFilters s"
proof -
  let ?t = "applyFilters s"
  have r: "applyFilters_results ?t = applyFilters_results s"
    by (rule applyFilters_results_cong) (simp_all add: applyFilters_fields)
  have st: "applyFilters_status ?t = applyFilters_status s"
    by (simp add: applyFilters_status_def applyFilters_fields)
  have a: "allMachines ?t = allMachines s" by (simp add: applyFilters_fields)
  have tb: "applyFilters_results s = [] \<Longrightarrow> machines_tbody ?t = machines_tbody s"
    by (simp add: applyFilters_alt)
  have "applyFilters ?t = ?t\<lparr>activeFilter := applyFilters_status s,
       machines_count_badge :=
         spec_badge (length (applyFilters_results s)) (length (allMachines s))
           (''m'' @ [a_acute] @ ''quina''),
       machines_table_loading_display := ''none'',
       machines_table_wrapper_display := (if applyFilters_results s = [] then ''none'' else ''block''),
       machines_table_empty_display := (if applyFilters_results s = [] then ''flex'' else ''none''),
       machines_tbody := (if applyFilters_results s = [] then machines_tbody s else applyFilters_results s)\<rparr>"
    by (subst applyFilters_alt) (simp only: r st a tb if_cancel cong: if_cong)
  also have "\<dots> = ?t"
    by (subst (1 2) applyFilters_alt) simp
  finally show ?thesis .
qed

lemma renderTable_p_alt:
  "products_renderTable ps s =
     s\<lparr>table_loading_display := ''none'',
       table_wrapper_display := (if ps = [] then ''none'' else ''block''),
       table_empty_display := (if ps = [] then ''flex'' else ''none''),
       products_tbody := (if ps = [] then products_tbody s else ps)\<rparr>"
  by (cases "ps = []") (simp_all add: products_renderTable_def products_showTableLoading_def)

lemma handleSearch_filtered_cong:
  "allProducts t = allProducts s \<Longrightarrow> table_search t = table_search s \<Longrightarrow>
   handleSearch_filtered t = handleSearch_filtered s"
  by (simp add: handleSearch_filtered_filter)

lemma handleSearch_idem: "handleSearch (handleSearch s) = handleSearch s"
proof -
  let ?t = "handleSearch s"
  have r: "handleSearch_filtered ?t = handleSearch_filtered s"
    by (rule handleSearch_filtered_cong) (simp_all add: handleSearch_def renderTable_p_alt)
  have tb: "handleSearch_filtered s = [] \<Longrightarrow> products_tbody ?t = products_tbody s"
    by (simp add: handleSearch_def renderTable_p_alt)
  have "handleSearch ?t =
      ?t\<lparr>table_loading_display := ''none'',
         table_wrapper_display := (if handleSearch_filtered s = [] then ''none'' else ''block''),
         table_empty_display := (if handleSearch_filtered s = [] then ''flex'' else ''none''),
         products_tbody :=
           (if handleSearch_filtered s = [] then products_tbody s else handleSearch_filtered s)\<rparr>"
    by (subst handleSearch_def, subst renderTable_p_alt)
       (simp only: r tb if_cancel cong: if_cong)
  also have "\<dots> = ?t"
    by (simp add: handleSearch_def renderTable_p_alt)
  finally show ?thesis .
qed

section \<open>Validation\<close>

lemma isNameDuplicate_spec: "isNameDuplicate s n = spec_duplicate machine_name s n"
  by (cases "editingMachine s") (auto simp: isNameDuplicate_def spec_duplicate_def list_ex_iff)

lemma isCodeDuplicate_spec: "isCodeDuplicate s n = spec_duplicate machine_code s n"
  by (cases "editingMachine s") (auto simp: isCodeDuplicate_def spec_duplicate_def list_ex_iff)

lemma spec_duplicate_trim: "spec_duplicate f s (trim v) = spec_duplicate f s v"
  by (simp add: spec_duplicate_def trim_trim)

lemma duplicate_checks_ignore_errors:
  "isNameDuplicate (s\<lparr>machine_error_name := e\<rparr>) = isNameDuplicate s"
  "isNameDuplicate (s\<lparr>machine_error_code := e\<rparr>) = isNameDuplicate s"
  "isCodeDuplicate (s\<lparr>machine_error_name := e\<rparr>) = isCodeDuplicate s"
  "isCodeDuplicate (s\<lparr>machine_error_code := e\<rparr>) = isCodeDuplicate s"
  by (simp_all add: isNameDuplicate_def isCodeDuplicate_def fun_eq_iff)

text \<open>\<^verbatim>\<open>validateForm\<close> of the Machines module: its flag and the page it leaves.\<close>

lemma machines_validateForm_alt:
  "machines_validateForm s =
     (machines_name_error s = '''' \<and> machines_code_error s = '''',
      s\<lparr>machine_error_name := machines_name_error s,
        machine_error_code := machines_code_error s\<rparr>)"
proof -
  consider (a) "trim (machine_field_name s) = ''''"
    | (b) "trim (machine_field_name s) \<noteq> ''''" "isNameDuplicate s (trim (machine_field_name s))"
    | (c) "trim (machine_field_name s) \<noteq> ''''" "\<not> isNameDuplicate s (trim (machine_field_name s))"
    by blast
  then show ?thesis
  proof cases
    case a
    consider (x) "trim (machine_field_code s) = ''''"
      | (y) "trim (machine_field_code s) \<noteq> ''''" "isCodeDuplicate s (trim (machine_field_code s))"
      | (z) "trim (machine_field_code s) \<noteq> ''''" "\<not> isCodeDuplicate s (trim (machine_field_code s))"
      by blast
    then show ?thesis using a
      by cases
        (simp_all add: machines_validateForm_def machines_clearFormErrors_def
           duplicate_checks_ignore_errors machines_name_error_def machines_code_error_def)
  next
    case b
    consider (x) "trim (machine_field_code s) = ''''"
      | (y) "trim (machine_field_code s) \<noteq> ''''" "isCodeDuplicate s (trim (machine_field_code s))"
      | (z) "trim (machine_field_code s) \<noteq> ''''" "\<not> isCodeDuplicate s (trim (machine_field_code s))"
      by blast
    then show ?thesis using b
      by cases
        (simp_all add: machines_validateForm_def machines_clearFormErrors_def
           duplicate_checks_ignore_errors machines_name_error_def machines_code_error_def)
  next
    case c
    consider (x) "trim (machine_field_code s) = ''''"
      | (y) "trim (machine_field_code s) \<noteq> ''''" "isCodeDuplicate s (trim (machine_field_code s))"
      | (z) "trim (machine_field_code s) \<noteq> ''''" "\<not> isCodeDuplicate s (trim (machine_field_code s))"
      by blast
    then show ?thesis using c
      by cases
        (simp_all add: machines_validateForm_def machines_clearFormErrors_def
           duplicate_checks_ignore_errors machines_name_error_def machines_code_error_def)
  qed
qed

lemma machines_name_error_empty:
  "machines_name_error s = '''' \<longleftrightarrow>
     trim (machine_field_name s) \<noteq> '''' \<and> \<not> spec_duplicate machine_name s (machine_field_name s)"
  by (simp add: machines_name_error_def Let_def isNameDuplicate_spec spec_duplicate_trim)

lemma machines_code_error_empty:
  "machines_code_error s = '''' \<longleftrightarrow>
     trim (machine_field_code s) \<noteq> '''' \<and> \<not> spec_duplicate machine_code s (machine_field_code s)"
  by (simp add: machines_code_error_def Let_def isCodeDuplicate_spec spec_duplicate_trim)

lemma machines_invalid_submit:
  "\<not> fst (machines_validateForm s) \<Longrightarrow>
   machines_handleFormSubmit a b s =
     s\<lparr>machine_error_name := machines_name_error s, machine_error_code := machines_code_error s\<rparr>"
  by (simp add: machines_handleFormSubmit_def machines_validateForm_alt)

text \<open>\<^verbatim>\<open>validateForm\<close> of the Products module: its flag and the page it leaves.\<close>

lemma products_validateForm_alt:
  "products_validateForm s =
     (products_name_error s = '''' \<and> products_type_error s = '''' \<and> products_price_error s = '''',
      s\<lparr>error_name := products_name_error s,
        error_type := products_type_error s,
        error_price_standard := products_price_error s\<rparr>)"
  by (cases "trim (field_name s) = ''''"; cases "field_type s = ''''";
      cases "field_price_standard s = '''' \<or> less_zero (Number_js (field_price_standard s))")
     (simp_all add: products_validateForm_def products_clearFormErrors_def
        products_name_error_def products_type_error_def products_price_error_def)

lemma products_invalid_submit:
  "\<not> fst (products_validateForm s) \<Longrightarrow>
   products_handleFormSubmit a b s =
     s\<lparr>error_name := products_name_error s,
       error_type := products_type_error s,
       error_price_standard := products_price_error s\<rparr>"
  by (simp add: products_handleFormSubmit_def products_validateForm_alt)

section \<open>Loading\<close>

lemma loadMachines_fields:
  "editingMachine (loadMachines r s) = editingMachine s"
  "machine_field_active (loadMachines r s) = machine_field_active s"
  "machines_api_calls (loadMachines r s) = machines_api_calls s @ [MachinesAPI_getAll]"
  by (cases r; cases "toast_container s";
      simp add: loadMachines_def applyFilters_fields machines_showFeedback_def
        machines_showTableLoading_def)+

lemma loadMachines_failure:
  "allMachines (loadMachines (Inl msg) s) = allMachines s"
  "toast_container s = Some ts \<Longrightarrow>
   toast_container (loadMachines (Inl msg) s) =
     Some (ts @ [(''error'', ''Error al cargar m'' @ [a_acute] @ ''quinas: '' @ msg)])"
  by (cases "toast_container s";
      simp add: loadMachines_def machines_showFeedback_def machines_showTableLoading_def)+

text \<open>Without a toast container the failed load leaves a page that does not depend on
  the error.\<close>

lemma loadMachines_failure_silent:
  "toast_container s = None \<Longrightarrow>
   loadMachines (Inl msg) s =
     (machines_showTableLoading False s)
       \<lparr>machines_api_calls := machines_api_calls s @ [MachinesAPI_getAll]\<rparr>"
  by (simp add: loadMachines_def machines_showFeedback_def machines_showTableLoading_def)

lemma loadProducts_failure:
  "allProducts (loadProducts (Inl msg) p) = allProducts p"
  "feedback_banner_textContent (loadProducts (Inl msg) p) = ''Error al cargar productos: '' @ msg"
  "feedback_banner_className (loadProducts (Inl msg) p) =
     ''feedback-banner feedback-banner--error feedback-banner--visible''"
  by (simp_all add: loadProducts_def products_showFeedback_def products_showTableLoading_def)

section \<open>The example pages, evaluated\<close>

lemma loaded_machines_eval:
  "loaded_machines =
     mounted_machines\<lparr>allMachines := [machine_A, machine_B],
       machines_api_calls := [MachinesAPI_getAll],
       machines_count_badge := ''2 m'' @ [a_acute] @ ''quinas'',
       machines_table_loading_display := ''none'',
       machines_table_wrapper_display := ''block'',
       machines_table_empty_display := ''none'',
       machines_tbody := [machine_A, machine_B]\<rparr>"
  by (simp add: machines_defs string_defs) (simp add: Let_def)

lemma loaded_products_eval:
  "loaded_products =
     mounted_products\<lparr>allProducts := [product_tapa, product_botella],
       products_api_calls := [ProductsAPI_getAll],
       products_count_badge := ''2 productos'',
       table_loading_display := ''none'',
       table_wrapper_display := ''block'',
       table_empty_display := ''none'',
       products_tbody := [product_tapa, product_botella]\<rparr>"
  by (simp add: products_defs string_defs)

lemma editing_machine_A_eval:
  "editing_machine_A =
     loaded_machines\<lparr>editingMachine := Some machine_A, machine_field_id := ''1'',
       machine_field_name := ''A'', machine_field_code := ''C1'', machine_field_notes := '''',
       machine_field_active := ''true'', machine_status_group_display := '''',
       machine_cancel_btn_display := ''inline-flex''\<rparr>"
  by (simp add: editing_machine_A_def machines_handleEdit_def loaded_machines_eval
        mounted_machines_def machine_A_def machine_B_def string_defs)

lemma editing_machine_B_eval:
  "editing_machine_B =
     loaded_machines\<lparr>editingMachine := Some machine_B, machine_field_id := ''2'',
       machine_field_name := ''B'', machine_field_code := ''C2'', machine_field_notes := '''',
       machine_field_active := ''false'', machine_status_group_display := '''',
       machine_cancel_btn_display := ''inline-flex''\<rparr>"
  by (simp add: editing_machine_B_def machines_handleEdit_def loaded_machines_eval
        mounted_machines_def machine_A_def machine_B_def string_defs)

lemma filtering_inactive_results: "applyFilters_results filtering_inactive = [machine_B]"
  by (simp add: applyFilters_results_filter)
     (simp add: filtering_inactive_def loaded_machines_eval mounted_machines_def
        spec_text_match_def spec_status_match_def machine_A_def machine_B_def string_defs)

lemma loaded_machines_results: "applyFilters_results loaded_machines = [machine_A, machine_B]"
  by (simp add: applyFilters_results_filter)
     (simp add: loaded_machines_eval mounted_machines_def
        spec_text_match_def spec_status_match_def machine_A_def machine_B_def string_defs)

section \<open>The claims\<close>

text \<open>
  C1 (as amended). In the Machines module the validation that runs before a submit
  passes exactly when name and code are non-empty after trimming and neither duplicates
  a cached machine other than the one being edited (trimmed, case ignored, ids compared
  as strings); a submission whose name or code is such a duplicate makes no call to the
  API. The validation of the Products module checks the required fields only (name,
  type, a standard price that is present and not below zero) and never looks at the cache.
\<close>

theorem machines_validation_checks_uniqueness:
  "(fst (machines_validateForm s) \<longleftrightarrow>
      trim (machine_field_name s) \<noteq> '''' \<and> trim (machine_field_code s) \<noteq> '''' \<and>
      \<not> spec_duplicate machine_name s (machine_field_name s) \<and>
      \<not> spec_duplicate machine_code s (machine_field_code s)) \<and>
   (spec_duplicate machine_name s (machine_field_name s) \<or>
    spec_duplicate machine_code s (machine_field_code s) \<longrightarrow>
      machines_api_calls (machines_handleFormSubmit a b s) = machines_api_calls s) \<and>
   (fst (products_validateForm p) \<longleftrightarrow>
      trim (field_name p) \<noteq> '''' \<and> field_type p \<noteq> '''' \<and>
      field_price_standard p \<noteq> '''' \<and> \<not> less_zero (Number_js (field_price_standard p)))"
proof -
  have v: "fst (machines_validateForm s) \<longleftrightarrow>
      trim (machine_field_name s) \<noteq> '''' \<and> trim (machine_field_code s) \<noteq> '''' \<and>
      \<not> spec_duplicate machine_name s (machine_field_name s) \<and>
      \<not> spec_duplicate machine_code s (machine_field_code s)"
    by (auto simp: machines_validateForm_alt machines_name_error_empty machines_code_error_empty)
  have n: "\<not> fst (machines_validateForm s) \<Longrightarrow>
      machines_api_calls (machines_handleFormSubmit a b s) = machines_api_calls s"
    by (simp add: machines_invalid_submit)
  have p: "fst (products_validateForm p) \<longleftrightarrow>
      trim (field_name p) \<noteq> '''' \<and> field_type p \<noteq> '''' \<and>
      field_price_standard p \<noteq> '''' \<and> \<not> less_zero (Number_js (field_price_standard p))"
    by (auto simp: products_validateForm_alt products_name_error_def products_type_error_def
          products_price_error_def)
  from v n p show ?thesis by blast
qed

text \<open>
  On the example page the create form holds the name of machine A in another spelling:
  the validation fails and the calls made stay the single load.
\<close>

theorem machines_validation_checks_uniqueness_witness:
  "spec_duplicate machine_name duplicate_name_form (machine_field_name duplicate_name_form) \<and>
   \<not> fst (machines_validateForm duplicate_name_form) \<and>
   machines_api_calls
     (machines_handleFormSubmit (Inr ()) (Inr [machine_A, machine_B]) duplicate_name_form) =
     [MachinesAPI_getAll]"
proof -
  have d: "spec_duplicate machine_name duplicate_name_form (machine_field_name duplicate_name_form)"
    by (simp add: spec_duplicate_def duplicate_name_form_def loaded_machines_eval
          mounted_machines_def machine_A_def machine_B_def string_defs)
  have c: "machines_api_calls duplicate_name_form = [MachinesAPI_getAll]"
    by (simp add: duplicate_name_form_def loaded_machines_eval)
  from machines_validation_checks_uniqueness
         [of duplicate_name_form "Inr ()" "Inr [machine_A, machine_B]"] d c
  show ?thesis by simp
qed

text \<open>
  C1 as stated fails in the Products module: with product Tapa in the cache and the
  create form holding the same name in another spelling, the validation passes and the
  submit calls \<^verbatim>\<open>ProductsAPI.create\<close>.
\<close>

theorem products_duplicate_name_counterexample:
  "editingProduct duplicate_product_form = None \<and>
   product_tapa \<in> set (allProducts duplicate_product_form) \<and>
   toLowerCase (trim (field_name duplicate_product_form)) =
     toLowerCase (trim (product_name product_tapa)) \<and>
   fst (products_validateForm duplicate_product_form) \<and>
   products_api_calls
     (products_handleFormSubmit (Inr ()) (Inr [product_tapa, product_botella])
        duplicate_product_form) =
     [ProductsAPI_getAll,
      ProductsAPI_create \<lparr>pp_name = ''tapa'', pp_type = ''produced'', pp_priceStandard = Fin 10,
                           pp_priceInvestor = None, pp_active = True\<rparr>,
      ProductsAPI_getAll]"
proof -
  have n10: "Number_js ''10'' = Fin 10" by (simp add: number_defs string_defs)
  have p10: "parseFloat ''10'' = Fin 10" by (simp add: number_defs string_defs)
  have pe: "parseFloat '''' = NaN" by (simp add: number_defs string_defs)
  have t: "trim '' tapa '' = ''tapa''" by (simp add: string_defs)
  have v: "products_validateForm duplicate_product_form = (True, duplicate_product_form)"
    by (simp add: products_validateForm_alt products_name_error_def products_type_error_def
          products_price_error_def duplicate_product_form_def loaded_products_eval
          mounted_products_def n10 t less_zero_def)
  show ?thesis
    by (simp add: products_handleFormSubmit_def v)
       (simp add: duplicate_product_form_def loaded_products_eval mounted_products_def
          products_collectFormData_def p10 pe t truthy_num_def loadProducts_def
          products_renderTable_def products_showTableLoading_def products_updateCountBadge_def
          products_showFeedback_def products_resetFormToCreateMode_def
          products_clearFormErrors_def product_tapa_def string_defs)
qed

text \<open>
  C2 (as amended). In the Machines module, when a confirmed status toggle succeeds and
  the toggled machine is the one held in the edit form (same id as a string), the
  form's status field shows the new value, the held machine carries it, and the full
  reload follows the toggle call.
\<close>

theorem machines_toggle_resyncs_edit_form:
  assumes "editingMachine s = Some e" and "String_js (machine_id e) = machineId"
  shows "machine_field_active
           (machines_handleToggleStatus True (Inr u) r machineId currentlyActive s) =
           (if currentlyActive then ''false'' else ''true'') \<and>
         editingMachine
           (machines_handleToggleStatus True (Inr u) r machineId currentlyActive s) =
           Some (e\<lparr>machine_isActive := Some (\<not> currentlyActive)\<rparr>) \<and>
         machines_api_calls
           (machines_handleToggleStatus True (Inr u) r machineId currentlyActive s) =
           machines_api_calls s @
             [if currentlyActive then MachinesAPI_deactivate machineId
              else MachinesAPI_activate machineId,
              MachinesAPI_getAll]"
  using assms
  by (cases "toast_container s"; cases currentlyActive)
     (simp_all add: machines_handleToggleStatus_def loadMachines_fields machines_showFeedback_def)

text \<open>
  The scenario of the specification: machine 2 is inactive and open in the edit form;
  activating it turns the status field from \<open>false\<close> to \<open>true\<close>.
\<close>

theorem machines_toggle_resyncs_edit_form_witness:
  "editingMachine editing_machine_B = Some machine_B \<and>
   String_js (machine_id machine_B) = ''2'' \<and>
   machine_field_active editing_machine_B = ''false'' \<and>
   machine_field_active
     (machines_handleToggleStatus True (Inr ())
        (Inr [machine_A, machine_B\<lparr>machine_isActive := Some True\<rparr>]) ''2'' False
        editing_machine_B) = ''true''"
proof -
  have e: "editingMachine editing_machine_B = Some machine_B"
    by (simp add: editing_machine_B_eval)
  have i: "String_js (machine_id machine_B) = ''2''"
    by (simp add: machine_B_def string_defs)
  have f: "machine_field_active editing_machine_B = ''false''"
    by (simp add: editing_machine_B_eval)
  from machines_toggle_resyncs_edit_form [OF e i, of "()" _ False] e i f
  show ?thesis by simp
qed

text \<open>
  C2 as stated fails in the Products module: product 1 is active and open in the edit
  form; deactivating it succeeds and the reload brings it back inactive, yet the status
  field of the form still reads \<open>true\<close>, not the new value \<open>false\<close>.
\<close>

theorem products_toggle_stale_counterexample:
  "editingProduct editing_product_tapa = Some product_tapa \<and>
   String_js (product_id product_tapa) = ''1'' \<and>
   allProducts
     (products_handleToggleStatus True (Inr ())
        (Inr [product_tapa\<lparr>product_active := Some False\<rparr>, product_botella]) ''1'' True
        editing_product_tapa) =
     [product_tapa\<lparr>product_active := Some False\<rparr>, product_botella] \<and>
   field_active
     (products_handleToggleStatus True (Inr ())
        (Inr [product_tapa\<lparr>product_active := Some False\<rparr>, product_botella]) ''1'' True
        editing_product_tapa) = ''true'' \<and>
   field_active
     (products_handleToggleStatus True (Inr ())
        (Inr [product_tapa\<lparr>product_active := Some False\<rparr>, product_botella]) ''1'' True
        editing_product_tapa) \<noteq> ''false''"
  by (simp add: editing_product_tapa_def loaded_products_eval mounted_products_def
        products_handleToggleStatus_def loadProducts_def products_renderTable_def
        products_showTableLoading_def products_updateCountBadge_def products_showFeedback_def
        product_tapa_def string_defs)

text \<open>
  C3 (as amended). In the Machines module, after every filter recomputation the badge
  reads "filtered de total" before the noun when the rows shown are fewer than the
  cache, and "total" otherwise, the noun in the plural unless the total is one. In the
  Products module the badge is written by a load, as the total with its noun, and the
  search leaves it as it is.
\<close>

theorem machines_count_badge_after_filter:
  "machines_count_badge (applyFilters s) =
     spec_badge (length (machines_displayed (applyFilters s))) (length (allMachines s))
       (''m'' @ [a_acute] @ ''quina'') \<and>
   products_count_badge (loadProducts (Inr ps) p) =
     spec_badge (length ps) (length ps) ''producto'' \<and>
   products_count_badge (handleSearch p) = products_count_badge p"
proof -
  have "machines_count_badge (applyFilters s) =
     spec_badge (length (applyFilters_results s)) (length (allMachines s))
       (''m'' @ [a_acute] @ ''quina'')"
    by (subst applyFilters_alt) simp
  then have a: "machines_count_badge (applyFilters s) =
     spec_badge (length (machines_displayed (applyFilters s))) (length (allMachines s))
       (''m'' @ [a_acute] @ ''quina'')"
    by (simp only: displayed_applyFilters)
  have b: "products_count_badge (loadProducts (Inr ps) p) =
     spec_badge (length ps) (length ps) ''producto''"
    by (cases "ps = []")
       (simp_all add: loadProducts_def products_updateCountBadge_def products_renderTable_def
          products_showTableLoading_def spec_badge_def)
  have c: "products_count_badge (handleSearch p) = products_count_badge p"
    by (cases "handleSearch_filtered p = []")
       (simp_all add: handleSearch_def products_renderTable_def products_showTableLoading_def)
  show ?thesis by (intro conjI a b c)
qed

text \<open>
  The scenario of the specification: with the status selector on \<open>inactive\<close> only
  machine 2 is shown and the badge reads "1 de 2 maquinas"; with no filter it reads
  "2 maquinas".
\<close>

theorem machines_count_badge_after_filter_witness:
  "machines_displayed (applyFilters filtering_inactive) = [machine_B] \<and>
   machines_count_badge (applyFilters filtering_inactive) =
     ''1 de 2 m'' @ [a_acute] @ ''quinas'' \<and>
   machines_count_badge (applyFilters loaded_machines) = ''2 m'' @ [a_acute] @ ''quinas''"
proof -
  have c: "allMachines filtering_inactive = [machine_A, machine_B]"
    "allMachines loaded_machines = [machine_A, machine_B]"
    by (simp_all add: filtering_inactive_def loaded_machines_eval)
  from machines_count_badge_after_filter [of filtering_inactive]
       machines_count_badge_after_filter [of loaded_machines]
  show ?thesis
    by (simp add: displayed_applyFilters filtering_inactive_results loaded_machines_results c
          spec_badge_def string_defs)
qed

text \<open>
  C3 as stated fails in the Products module: two products are loaded and the search
  narrows the table to one of them, yet the badge still reads "2 productos", not
  "1 de 2 productos".
\<close>

theorem products_badge_counterexample:
  "allProducts (handleSearch searching_tapa) = [product_tapa, product_botella] \<and>
   products_displayed (handleSearch searching_tapa) = [product_tapa] \<and>
   products_count_badge (handleSearch searching_tapa) = ''2 productos'' \<and>
   spec_badge 1 2 ''producto'' = ''1 de 2 productos'' \<and>
   products_count_badge (handleSearch searching_tapa) \<noteq>
     spec_badge (length (products_displayed (handleSearch searching_tapa)))
       (length (allProducts (handleSearch searching_tapa))) ''producto''"
  by (simp add: searching_tapa_def loaded_products_eval mounted_products_def handleSearch_def
        handleSearch_filtered_def products_renderTable_def products_showTableLoading_def
        products_displayed_def product_tapa_def product_botella_def spec_badge_def string_defs)

text \<open>
  C4. For every cache, query and status, the rows the Machines filter renders are
  exactly the cached machines, in order, for which the trimmed query occurs in the name
  or in the code when case is ignored, and which the status selects (\<open>inactive\<close>: flag
  exactly false; \<open>active\<close>: flag not exactly false, so an absent flag counts as
  active; otherwise all). The Products search, which has no status selector, renders
  exactly the cached products whose name contains the trimmed query when case is ignored.
\<close>

theorem filter_output_exact:
  "applyFilters_results s =
     filter (\<lambda>m. (spec_text_match (machines_search s) (machine_name m) \<or>
                  spec_text_match (machines_search s) (machine_code m)) \<and>
                 spec_status_match (machines_filter_status s) (machine_isActive m))
       (allMachines s) \<and>
   machines_displayed (applyFilters s) = applyFilters_results s \<and>
   handleSearch_filtered p =
     filter (\<lambda>x. spec_text_match (table_search p) (product_name x)) (allProducts p) \<and>
   products_displayed (handleSearch p) = handleSearch_filtered p"
  using applyFilters_results_filter [of s] handleSearch_filtered_filter [of p]
  by (simp only: displayed_applyFilters displayed_handleSearch simp_thms)

text \<open>
  The scenario of the specification: the status \<open>inactive\<close> shows machine 2 only; an
  absent flag passes the \<open>active\<close> filter and not the \<open>inactive\<close> one.
\<close>

theorem filter_output_exact_witness:
  "machines_displayed (applyFilters filtering_inactive) = [machine_B] \<and>
   spec_status_match ''active'' None \<and>
   \<not> spec_status_match ''inactive'' None"
proof -
  have "applyFilters_results filtering_inactive = [machine_B]"
    by (simp add: filter_output_exact [of filtering_inactive])
       (simp add: filtering_inactive_def loaded_machines_eval mounted_machines_def
          spec_text_match_def spec_status_match_def machine_A_def machine_B_def string_defs)
  then show ?thesis
    using filter_output_exact [of filtering_inactive]
    by (simp add: spec_status_match_def)
qed

text \<open>
  C5. What the filter coordinator shows depends on the cache, the query and the status
  only; running it a second time changes nothing; and the rows shown are a subsequence
  of the cache in the cache's order. The same holds for the Products search, with the cache
  and the query.
\<close>

theorem filter_pure_idempotent_subseq:
  "(allMachines t = allMachines s \<and> machines_search t = machines_search s \<and>
    machines_filter_status t = machines_filter_status s \<longrightarrow>
      machines_displayed (applyFilters t) = machines_displayed (applyFilters s)) \<and>
   applyFilters (applyFilters s) = applyFilters s \<and>
   subseq (machines_displayed (applyFilters s)) (allMachines s) \<and>
   (allProducts q = allProducts p \<and> table_search q = table_search p \<longrightarrow>
      products_displayed (handleSearch q) = products_displayed (handleSearch p)) \<and>
   handleSearch (handleSearch p) = handleSearch p \<and>
   subseq (products_displayed (handleSearch p)) (allProducts p)"
proof -
  have a: "allMachines t = allMachines s \<and> machines_search t = machines_search s \<and>
    machines_filter_status t = machines_filter_status s \<longrightarrow>
      machines_displayed (applyFilters t) = machines_displayed (applyFilters s)"
    using applyFilters_results_cong [of t s] by (simp add: displayed_applyFilters)
  have b: "subseq (machines_displayed (applyFilters s)) (allMachines s)"
    by (simp add: displayed_applyFilters applyFilters_results_filter)
  have c: "allProducts q = allProducts p \<and> table_search q = table_search p \<longrightarrow>
      products_displayed (handleSearch q) = products_displayed (handleSearch p)"
    using handleSearch_filtered_cong [of q p] by (simp add: displayed_handleSearch)
  have d: "subseq (products_displayed (handleSearch p)) (allProducts p)"
    by (simp add: displayed_handleSearch handleSearch_filtered_filter)
  show ?thesis
    by (intro conjI a b c d applyFilters_idem handleSearch_idem)
qed

text \<open>
  Two pages that differ in the edit form and agree on cache, query and status show the
  same rows.
\<close>

theorem filter_pure_idempotent_subseq_witness:
  "allMachines editing_machine_A = allMachines loaded_machines \<and>
   machines_search editing_machine_A = machines_search loaded_machines \<and>
   machines_filter_status editing_machine_A = machines_filter_status loaded_machines \<and>
   editing_machine_A \<noteq> loaded_machines \<and>
   machines_displayed (applyFilters editing_machine_A) =
     machines_displayed (applyFilters loaded_machines) \<and>
   allProducts editing_product_tapa = allProducts loaded_products \<and>
   table_search editing_product_tapa = table_search loaded_products \<and>
   products_displayed (handleSearch editing_product_tapa) =
     products_displayed (handleSearch loaded_products)"
proof -
  have a: "allMachines editing_machine_A = allMachines loaded_machines"
    "machines_search editing_machine_A = machines_search loaded_machines"
    "machines_filter_status editing_machine_A = machines_filter_status loaded_machines"
    by (simp_all add: editing_machine_A_eval)
  have b: "editingMachine editing_machine_A \<noteq> editingMachine loaded_machines"
    by (simp add: editing_machine_A_eval loaded_machines_eval mounted_machines_def)
  then have c: "editing_machine_A \<noteq> loaded_machines" by (rule contrapos_nn) simp
  have d: "allProducts editing_product_tapa = allProducts loaded_products"
    "table_search editing_product_tapa = table_search loaded_products"
    by (simp_all add: editing_product_tapa_def)
  from filter_pure_idempotent_subseq
         [of editing_machine_A loaded_machines editing_product_tapa loaded_products] a c d
  show ?thesis by simp
qed

text \<open>
  C6 (as amended). When the fetch-all of a load throws, the cache is the one from
  before, whole. The Products module shows the error in its feedback banner. The
  Machines module shows it as an error toast when the page has a toast container; on a
  page without one \<^verbatim>\<open>showFeedback\<close> returns at its guard, and the failed load only
  records the call and hides the spinner.
\<close>

theorem load_failure_keeps_cache:
  "allMachines (loadMachines (Inl msg) s) = allMachines s \<and>
   (toast_container s = Some ts \<longrightarrow>
      toast_container (loadMachines (Inl msg) s) =
        Some (ts @ [(''error'', ''Error al cargar m'' @ [a_acute] @ ''quinas: '' @ msg)])) \<and>
   (toast_container s = None \<longrightarrow>
      loadMachines (Inl msg) s =
        (machines_showTableLoading False s)
          \<lparr>machines_api_calls := machines_api_calls s @ [MachinesAPI_getAll]\<rparr>) \<and>
   allProducts (loadProducts (Inl msg) p) = allProducts p \<and>
   feedback_banner_textContent (loadProducts (Inl msg) p) =
     ''Error al cargar productos: '' @ msg \<and>
   feedback_banner_className (loadProducts (Inl msg) p) =
     ''feedback-banner feedback-banner--error feedback-banner--visible''"
  by (simp add: loadMachines_failure loadProducts_failure loadMachines_failure_silent)

text \<open>A failed reload of the example pages, with and without a toast container.\<close>

theorem load_failure_keeps_cache_witness:
  "toast_container loaded_machines = Some [] \<and>
   allMachines (loadMachines (Inl ''Failed to fetch'') loaded_machines) = [machine_A, machine_B] \<and>
   toast_container (loadMachines (Inl ''Failed to fetch'') loaded_machines) =
     Some [(''error'', ''Error al cargar m'' @ [a_acute] @ ''quinas: Failed to fetch'')] \<and>
   allProducts (loadProducts (Inl ''Failed to fetch'') loaded_products) =
     [product_tapa, product_botella] \<and>
   toast_container loaded_machines_no_toasts = None \<and>
   allMachines (loadMachines (Inl ''Failed to fetch'') loaded_machines_no_toasts) =
     [machine_A, machine_B] \<and>
   toast_container (loadMachines (Inl ''Failed to fetch'') loaded_machines_no_toasts) = None"
proof -
  have t: "toast_container loaded_machines = Some []"
    by (simp add: loaded_machines_eval mounted_machines_def)
  have n: "toast_container loaded_machines_no_toasts = None"
    by (simp add: loaded_machines_no_toasts_def)
  have c: "allMachines loaded_machines = [machine_A, machine_B]"
    "allMachines loaded_machines_no_toasts = [machine_A, machine_B]"
    "allProducts loaded_products = [product_tapa, product_botella]"
    by (simp_all add: loaded_machines_no_toasts_def loaded_machines_eval loaded_products_eval)
  have k: "toast_container (machines_showTableLoading False loaded_machines_no_toasts) = None"
    by (simp add: machines_showTableLoading_def n)
  from load_failure_keeps_cache [of "''Failed to fetch''" loaded_machines_no_toasts "[]" loaded_products] n
  have q: "loadMachines (Inl ''Failed to fetch'') loaded_machines_no_toasts =
        (machines_showTableLoading False loaded_machines_no_toasts)
          \<lparr>machines_api_calls := machines_api_calls loaded_machines_no_toasts @ [MachinesAPI_getAll]\<rparr>"
    by blast
  have z: "toast_container (loadMachines (Inl ''Failed to fetch'') loaded_machines_no_toasts) = None"
    by (subst q) (simp add: k)
  have y: "allMachines (loadMachines (Inl ''Failed to fetch'') loaded_machines_no_toasts) =
     [machine_A, machine_B]"
    by (subst q) (simp add: machines_showTableLoading_def c)
  from load_failure_keeps_cache [of "''Failed to fetch''" loaded_machines "[]" loaded_products]
       t n c z y
  show ?thesis by simp
qed

text \<open>
  C6 as stated fails in the Machines module on a page without a toast container: the
  failed load shows the error nowhere, and the page it leaves is the same for any two
  error messages.
\<close>

theorem machines_load_failure_silent_counterexample:
  "toast_container loaded_machines_no_toasts = None \<and>
   toast_container (loadMachines (Inl ''Failed to fetch'') loaded_machines_no_toasts) = None \<and>
   loadMachines (Inl ''Failed to fetch'') loaded_machines_no_toasts =
     loadMachines (Inl ''db down'') loaded_machines_no_toasts"
proof -
  have n: "toast_container loaded_machines_no_toasts = None"
    by (simp add: loaded_machines_no_toasts_def)
  have k: "toast_container (machines_showTableLoading False loaded_machines_no_toasts) = None"
    by (simp add: machines_showTableLoading_def n)
  show ?thesis
    by (simp add: n k loadMachines_failure_silent [OF n])
qed

text \<open>
  C7. In either module, a submit whose validation fails makes no call to the API,
  leaves the cache as it is and shows an error under at least one field; a form
  submitted with an empty name fails the validation with the error under the name field.
\<close>

theorem invalid_submit_makes_no_call:
  "(\<not> fst (machines_validateForm s) \<longrightarrow>
      machines_api_calls (machines_handleFormSubmit a b s) = machines_api_calls s \<and>
      allMachines (machines_handleFormSubmit a b s) = allMachines s \<and>
      (machine_error_name (machines_handleFormSubmit a b s) \<noteq> '''' \<or>
       machine_error_code (machines_handleFormSubmit a b s) \<noteq> '''')) \<and>
   (trim (machine_field_name s) = '''' \<longrightarrow>
      \<not> fst (machines_validateForm s) \<and>
      machine_error_name (machines_handleFormSubmit a b s) =
        ''El nombre de la m'' @ [a_acute] @ ''quina es obligatorio.'') \<and>
   (\<not> fst (products_validateForm p) \<longrightarrow>
      products_api_calls (products_handleFormSubmit c d p) = products_api_calls p \<and>
      allProducts (products_handleFormSubmit c d p) = allProducts p \<and>
      (error_name (products_handleFormSubmit c d p) \<noteq> '''' \<or>
       error_type (products_handleFormSubmit c d p) \<noteq> '''' \<or>
       error_price_standard (products_handleFormSubmit c d p) \<noteq> '''')) \<and>
   (trim (field_name p) = '''' \<longrightarrow>
      \<not> fst (products_validateForm p) \<and>
      error_name (products_handleFormSubmit c d p) = ''El nombre del producto es obligatorio.'')"
proof -
  have m1: "\<not> fst (machines_validateForm s) \<longrightarrow>
      machines_api_calls (machines_handleFormSubmit a b s) = machines_api_calls s \<and>
      allMachines (machines_handleFormSubmit a b s) = allMachines s \<and>
      (machine_error_name (machines_handleFormSubmit a b s) \<noteq> '''' \<or>
       machine_error_code (machines_handleFormSubmit a b s) \<noteq> '''')"
    by (simp add: machines_invalid_submit) (simp add: machines_validateForm_alt)
  have m2: "trim (machine_field_name s) = '''' \<Longrightarrow> \<not> fst (machines_validateForm s)"
    by (simp add: machines_validateForm_alt machines_name_error_def)
  have m3: "trim (machine_field_name s) = '''' \<longrightarrow>
      \<not> fst (machines_validateForm s) \<and>
      machine_error_name (machines_handleFormSubmit a b s) =
        ''El nombre de la m'' @ [a_acute] @ ''quina es obligatorio.''"
    using m2 by (simp add: machines_invalid_submit) (simp add: machines_name_error_def)
  have p1: "\<not> fst (products_validateForm p) \<longrightarrow>
      products_api_calls (products_handleFormSubmit c d p) = products_api_calls p \<and>
      allProducts (products_handleFormSubmit c d p) = allProducts p \<and>
      (error_name (products_handleFormSubmit c d p) \<noteq> '''' \<or>
       error_type (products_handleFormSubmit c d p) \<noteq> '''' \<or>
       error_price_standard (products_handleFormSubmit c d p) \<noteq> '''')"
    by (simp add: products_invalid_submit) (simp add: products_validateForm_alt)
  have p2: "trim (field_name p) = '''' \<Longrightarrow> \<not> fst (products_validateForm p)"
    by (simp add: products_validateForm_alt products_name_error_def)
  have p3: "trim (field_name p) = '''' \<longrightarrow>
      \<not> fst (products_validateForm p) \<and>
      error_name (products_handleFormSubmit c d p) = ''El nombre del producto es obligatorio.''"
    using p2 by (simp add: products_invalid_submit) (simp add: products_name_error_def)
  show ?thesis by (intro conjI m1 m3 p1 p3)
qed

text \<open>
  The scenario of the specification: the empty create form is submitted on each example
  page; the only call on record stays the load, and the cache is unchanged.
\<close>

theorem invalid_submit_makes_no_call_witness:
  "trim (machine_field_name loaded_machines) = '''' \<and>
   \<not> fst (machines_validateForm loaded_machines) \<and>
   machines_api_calls
     (machines_handleFormSubmit (Inr ()) (Inr [machine_A]) loaded_machines) =
     [MachinesAPI_getAll] \<and>
   allMachines
     (machines_handleFormSubmit (Inr ()) (Inr [machine_A]) loaded_machines) =
     [machine_A, machine_B] \<and>
   trim (field_name loaded_products) = '''' \<and>
   \<not> fst (products_validateForm loaded_products) \<and>
   products_api_calls
     (products_handleFormSubmit (Inr ()) (Inr [product_tapa]) loaded_products) =
     [ProductsAPI_getAll] \<and>
   allProducts
     (products_handleFormSubmit (Inr ()) (Inr [product_tapa]) loaded_products) =
     [product_tapa, product_botella]"
proof -
  have m: "trim (machine_field_name loaded_machines) = ''''"
    by (simp add: loaded_machines_eval mounted_machines_def string_defs)
  have p: "trim (field_name loaded_products) = ''''"
    by (simp add: loaded_products_eval mounted_products_def string_defs)
  have mc: "machines_api_calls loaded_machines = [MachinesAPI_getAll]"
    "allMachines loaded_machines = [machine_A, machine_B]"
    by (simp_all add: loaded_machines_eval)
  have pc: "products_api_calls loaded_products = [ProductsAPI_getAll]"
    "allProducts loaded_products = [product_tapa, product_botella]"
    by (simp_all add: loaded_products_eval)
  from invalid_submit_makes_no_call
         [of loaded_machines "Inr ()" "Inr [machine_A]" loaded_products "Inr ()" "Inr [product_tapa]"]
       m p mc pc
  show ?thesis by simp
qed

text \<open>
  C8 (as amended). A non-2xx response makes \<^verbatim>\<open>request\<close> throw an error built from the
  \<^verbatim>\<open>message\<close> member of the body when the body is a JSON object whose \<^verbatim>\<open>message\<close> is
  truthy, and from the text "Error status: statusText" in every other case (no JSON
  body, no such member, or a member that is empty, null, zero or false); a 204 response
  resolves to null whatever its body.
\<close>

theorem request_error_and_no_content:
  "(\<not> response_ok r \<longrightarrow>
      request (Inr r) =
        Inl (HttpError (case server_message r of
                          Some v \<Rightarrow> if truthy v then v else JStr (generic_error r)
                        | None \<Rightarrow> JStr (generic_error r)))) \<and>
   (response_status r = 204 \<longrightarrow> request (Inr r) = Inr JNull)"
  by (auto simp: request_def response_ok_def server_message_def generic_error_def
        get_message_def Let_def split: option.splits json.splits sum.splits)

text \<open>
  The scenario of the specification (status 500 with the message "db down"), and a 204
  whose body is not JSON.
\<close>

theorem request_error_and_no_content_witness:
  "\<not> response_ok response_db_down \<and>
   request (Inr response_db_down) = Inl (HttpError (JStr ''db down'')) \<and>
   response_status response_no_content = 204 \<and>
   request (Inr response_no_content) = Inr JNull"
  using request_error_and_no_content [of response_db_down]
    request_error_and_no_content [of response_no_content]
  by (simp add: response_db_down_def response_no_content_def response_ok_def
        server_message_def truthy_def)

text \<open>
  C8 as stated fails on an error response whose JSON body has an empty \<^verbatim>\<open>message\<close>:
  the error carries the generic text, not the member.
\<close>

theorem request_empty_message_counterexample:
  "\<not> response_ok response_empty_message \<and>
   server_message response_empty_message = Some (JStr '''') \<and>
   request (Inr response_empty_message) =
     Inl (HttpError (JStr ''Error 500: Internal Server Error'')) \<and>
   request (Inr response_empty_message) \<noteq> Inl (HttpError (JStr ''''))"
  by (simp add: response_empty_message_def response_ok_def server_message_def request_def
        get_message_def truthy_def string_defs)

text \<open>
  C9. While machine X is being edited, the name check reports a duplicate exactly when
  some cached machine whose id differs from X's (as strings) carries the same name,
  trimmed and lower-cased, and the code check likewise for the code; X itself is never
  what makes the check report one.
\<close>

theorem duplicate_checks_exclude_edited:
  assumes "editingMachine s = Some X"
  shows "(isNameDuplicate s n \<longleftrightarrow>
            (\<exists>m\<in>set (allMachines s).
               String_js (machine_id m) \<noteq> String_js (machine_id X) \<and>
               toLowerCase (trim (machine_name m)) = toLowerCase (trim n))) \<and>
         (isCodeDuplicate s c \<longleftrightarrow>
            (\<exists>m\<in>set (allMachines s).
               String_js (machine_id m) \<noteq> String_js (machine_id X) \<and>
               toLowerCase (trim (machine_code m)) = toLowerCase (trim c)))"
  using assms by (auto simp: isNameDuplicate_def isCodeDuplicate_def list_ex_iff)

text \<open>
  Machine A is being edited: its own name and code are no duplicates, the name and the
  code of machine B (in another spelling) are.
\<close>

theorem duplicate_checks_exclude_edited_witness:
  "editingMachine editing_machine_A = Some machine_A \<and>
   machine_A \<in> set (allMachines editing_machine_A) \<and>
   \<not> isNameDuplicate editing_machine_A (machine_name machine_A) \<and>
   \<not> isCodeDuplicate editing_machine_A (machine_code machine_A) \<and>
   isNameDuplicate editing_machine_A '' b '' \<and>
   isCodeDuplicate editing_machine_A ''c2''"
proof -
  have e: "editingMachine editing_machine_A = Some machine_A"
    by (simp add: editing_machine_A_eval)
  have c: "allMachines editing_machine_A = [machine_A, machine_B]"
    by (simp add: editing_machine_A_eval loaded_machines_eval)
  show ?thesis
    using e duplicate_checks_exclude_edited [OF e, of "machine_name machine_A" "machine_code machine_A"]
      duplicate_checks_exclude_edited [OF e, of "'' b ''" "''c2''"]
    by (simp add: c machine_A_def machine_B_def string_defs)
qed

text \<open>
  C10. The payload of the Products form carries a null investor price exactly when the
  investor-price input parses to zero or to no number, and a standard price of zero
  whenever the standard-price input parses to no number.
\<close>

theorem collectFormData_price_defaults:
  "(pp_priceInvestor (products_collectFormData s) = None \<longleftrightarrow>
      parseFloat (field_price_investor s) = NaN \<or> parseFloat (field_price_investor s) = Fin 0) \<and>
   (parseFloat (field_price_standard s) = NaN \<longrightarrow>
      pp_priceStandard (products_collectFormData s) = Fin 0)"
  by (cases "parseFloat (field_price_investor s)")
     (simp_all add: products_collectFormData_def truthy_num_def Let_def)

text \<open>An investor price typed as 0 and a standard price that is no number.\<close>

theorem collectFormData_price_defaults_witness:
  "parseFloat ''0'' = Fin 0 \<and> parseFloat ''abc'' = NaN \<and>
   pp_priceInvestor (products_collectFormData
      (mounted_products\<lparr>field_price_investor := ''0'', field_price_standard := ''abc''\<rparr>)) = None \<and>
   pp_priceStandard (products_collectFormData
      (mounted_products\<lparr>field_price_investor := ''0'', field_price_standard := ''abc''\<rparr>)) = Fin 0"
proof -
  have a: "parseFloat ''0'' = Fin 0" by (simp add: number_defs string_defs)
  have b: "parseFloat ''abc'' = NaN" by (simp add: number_defs string_defs)
  show ?thesis
    using a b collectFormData_price_defaults
      [of "mounted_products\<lparr>field_price_investor := ''0'', field_price_standard := ''abc''\<rparr>"]
    by simp
qed

end
